theory Spec2Isabelle
  imports Complex_Main "HOL-Library.AList"
begin

section \<open>Constants, enumerations and data classes\<close>

text \<open>
  The program is a Python simulation of an autonomous parallel-parking manoeuvre
  (\<^verbatim>\<open>main.py\<close>).  Python floats and ints are embedded as the reals: rounding, infinities
  and NaN are not modelled.  Texts that are only passed around (rule names, reasoning,
  descriptions: Russian in the source) are lists of Unicode code points.
\<close>

definition CAR_LENGTH :: real where "CAR_LENGTH = 80"
definition CAR_WIDTH :: real where "CAR_WIDTH = 40"
definition SENSOR_RANGE :: real where "SENSOR_RANGE = 400"

type_synonym utext = "nat list"

datatype ParkingPhase =
  SEARCHING | APPROACH | POSITIONING | PREPARE_REVERSE | REVERSE_RIGHT | REVERSE_LEFT
  | FINAL_ADJUST | PARKED | ABORTED

fun phase_value :: "ParkingPhase \<Rightarrow> string" where
  "phase_value SEARCHING = ''searching''"
| "phase_value APPROACH = ''approach''"
| "phase_value POSITIONING = ''positioning''"
| "phase_value PREPARE_REVERSE = ''prepare_reverse''"
| "phase_value REVERSE_RIGHT = ''reverse_right''"
| "phase_value REVERSE_LEFT = ''reverse_left''"
| "phase_value FINAL_ADJUST = ''final_adjust''"
| "phase_value PARKED = ''parked''"
| "phase_value ABORTED = ''aborted''"

datatype Direction = FORWARD | BACKWARD

datatype RulePriority = HIGH | MEDIUM | LOW

fun priority_value :: "RulePriority \<Rightarrow> int" where
  "priority_value HIGH = 3"
| "priority_value MEDIUM = 2"
| "priority_value LOW = 1"

record ParkingSpot =
  spot_x :: real
  spot_y :: real
  spot_width :: real
  spot_length :: real
  occupied :: bool
  suitable :: bool

record ParkingConfig =
  turn_radius_ratio :: real
  sensor_range :: real
  max_speed :: real
  max_reverse_speed :: real
  preferred_direction :: Direction
  safety_margin :: real
  steering_sensitivity :: real

text \<open>The configuration that \<^verbatim>\<open>ParkingSimulation.__init__\<close> builds.\<close>

definition simulation_config :: ParkingConfig where
  "simulation_config = \<lparr>turn_radius_ratio = 2.5, sensor_range = SENSOR_RANGE, max_speed = 2.5,
     max_reverse_speed = 1.5, preferred_direction = FORWARD, safety_margin = 30,
     steering_sensitivity = 0.3\<rparr>"


section \<open>The fact store\<close>

text \<open>
  \<^verbatim>\<open>KnowledgeBase.facts\<close> is a Python dict from names to values.  The names are those that
  \<^verbatim>\<open>ExpertSystem.make_decision\<close>, \<^verbatim>\<open>KnowledgeBase.update_facts\<close> and
  \<^verbatim>\<open>KnowledgeBase.infer\<close> write, each with the type \<^verbatim>\<open>make_decision\<close> gives it, and each
  possibly absent.  The number-valued facts are kept as an association list in insertion
  order, because \<^verbatim>\<open>Rule.evaluate\<close> replaces names by values textually, in the order of the
  dict (see \<open>garbled\<close> below); \<open>AList.update\<close> is Python's item assignment: an existing key
  keeps its place, a new key goes to the end.
\<close>

datatype nkey =
  CarX | CarY | CarAngle
  | FrontLeftSensor | FrontSensor | FrontRightSensor | LeftSensor | RightSensor
  | RearLeftSensor | RearRightSensor | RearSensor
  | DistanceToSpot | CarLengthKey | CarWidthKey | Throttle | Steering

fun key_name :: "nkey \<Rightarrow> string" where
  "key_name CarX = ''car_x''"
| "key_name CarY = ''car_y''"
| "key_name CarAngle = ''car_angle''"
| "key_name FrontLeftSensor = ''front_left_sensor''"
| "key_name FrontSensor = ''front_sensor''"
| "key_name FrontRightSensor = ''front_right_sensor''"
| "key_name LeftSensor = ''left_sensor''"
| "key_name RightSensor = ''right_sensor''"
| "key_name RearLeftSensor = ''rear_left_sensor''"
| "key_name RearRightSensor = ''rear_right_sensor''"
| "key_name RearSensor = ''rear_sensor''"
| "key_name DistanceToSpot = ''distance_to_spot''"
| "key_name CarLengthKey = ''CAR_LENGTH''"
| "key_name CarWidthKey = ''CAR_WIDTH''"
| "key_name Throttle = ''throttle''"
| "key_name Steering = ''steering''"

record Facts =
  f_phase :: "ParkingPhase option"
  f_selected_spot :: "ParkingSpot option option"
  f_nums :: "(nkey \<times> real) list"
  f_config :: "ParkingConfig option"
  f_emergency :: "bool option"

text \<open>
  \<open>f_phase\<close> is the fact \<^verbatim>\<open>phase\<close> (the string \<open>phase_value p\<close>), \<open>f_selected_spot\<close> the fact
  \<^verbatim>\<open>selected_spot\<close> (\<open>None\<close>: no such key; \<open>Some None\<close>: the key holds Python's \<^verbatim>\<open>None\<close>),
  \<open>f_config\<close> the fact \<^verbatim>\<open>config\<close>, \<open>f_emergency\<close> the fact \<^verbatim>\<open>emergency\<close>.
\<close>

definition empty_facts :: Facts where
  "empty_facts = \<lparr>f_phase = None, f_selected_spot = None, f_nums = [], f_config = None,
     f_emergency = None\<rparr>"

definition fact :: "Facts \<Rightarrow> nkey \<Rightarrow> real option" where
  "fact f k = map_of (f_nums f) k"

definition set_num :: "nkey \<Rightarrow> real \<Rightarrow> Facts \<Rightarrow> Facts" where
  "set_num k v f = f\<lparr>f_nums := AList.update k v (f_nums f)\<rparr>"

definition set_default :: "nkey \<Rightarrow> real \<Rightarrow> Facts \<Rightarrow> Facts" where
  "set_default k v f = (if fact f k = None then set_num k v f else f)"


section \<open>Conditions and action templates\<close>

text \<open>
  In the source a condition and an action template are Python expressions kept as text
  and run by \<^verbatim>\<open>eval\<close>.  The embedding keeps their syntax trees, over the operators that the
  rule table uses: numbers, names of number-valued facts, \<^verbatim>\<open>selected_spot.x\<close>,
  \<^verbatim>\<open>selected_spot.y\<close>, \<^verbatim>\<open>config.max_speed\<close>, \<^verbatim>\<open>config.max_reverse_speed\<close>, unary minus,
  \<open>+\<close>, \<open>-\<close>, \<open>*\<close>, \<^verbatim>\<open>abs\<close>; comparisons, \<^verbatim>\<open>phase == '...'\<close>, \<^verbatim>\<open>phase != '...'\<close>,
  \<^verbatim>\<open>selected_spot is None\<close>, \<^verbatim>\<open>selected_spot is not None\<close> and \<^verbatim>\<open>or\<close>.
\<close>

datatype spot_attr = SpotX | SpotY
datatype config_attr = MaxSpeed | MaxReverseSpeed

datatype nexpr =
  Num real
  | Var nkey
  | SpotAttr spot_attr
  | ConfigAttr config_attr
  | Neg nexpr
  | Add nexpr nexpr
  | Sub nexpr nexpr
  | Mul nexpr nexpr
  | Abs nexpr

datatype cond =
  Lt nexpr nexpr
  | Le nexpr nexpr
  | Gt nexpr nexpr
  | Ge nexpr nexpr
  | PhaseEq ParkingPhase
  | PhaseNe ParkingPhase
  | SpotIsNone
  | SpotIsNotNone
  | Or cond cond

datatype py_error =
  NameError | AttributeError | Garbled | KeyError | IndexError | ZeroDivisionError

datatype mode = Condition | Action

fun get_spot_attr :: "spot_attr \<Rightarrow> ParkingSpot \<Rightarrow> real" where
  "get_spot_attr SpotX s = spot_x s"
| "get_spot_attr SpotY s = spot_y s"

fun get_config_attr :: "config_attr \<Rightarrow> ParkingConfig \<Rightarrow> real" where
  "get_config_attr MaxSpeed c = max_speed c"
| "get_config_attr MaxReverseSpeed c = max_reverse_speed c"

text \<open>
  Before it runs a condition, \<^verbatim>\<open>Rule.evaluate\<close> goes through the dict in order and
  replaces, in the text of the condition, every occurrence of the name of a number-valued
  fact by the text of its value; a name is also found inside a longer name.  Among the fact
  names, \<^verbatim>\<open>left_sensor\<close> lies inside \<^verbatim>\<open>front_left_sensor\<close> and \<^verbatim>\<open>rear_left_sensor\<close>, and
  \<^verbatim>\<open>right_sensor\<close> inside \<^verbatim>\<open>front_right_sensor\<close> and \<^verbatim>\<open>rear_right_sensor\<close>; no other fact
  name lies inside another name or inside another token of a condition.  So the longer
  name survives only if its own key comes first in the dict; otherwise its text becomes
  e.g. \<^verbatim>\<open>front_400\<close>, which \<^verbatim>\<open>eval\<close> rejects (\<open>Garbled\<close>).  Everywhere else the replacement
  gives what a lookup of the name gives.
\<close>

fun inner_key :: "nkey \<Rightarrow> nkey option" where
  "inner_key FrontLeftSensor = Some LeftSensor"
| "inner_key RearLeftSensor = Some LeftSensor"
| "inner_key FrontRightSensor = Some RightSensor"
| "inner_key RearRightSensor = Some RightSensor"
| "inner_key k = None"

definition garbled :: "(nkey \<times> real) list \<Rightarrow> nkey \<Rightarrow> bool" where
  "garbled nums k =
     (case inner_key k of
        None \<Rightarrow> False
      | Some k' \<Rightarrow> List.member (takeWhile (\<lambda>j. j \<noteq> k) (map fst nums)) k')"

text \<open>
  A name in a condition: replaced by its value; the names \<^verbatim>\<open>CAR_LENGTH\<close> and
  \<^verbatim>\<open>CAR_WIDTH\<close> that are still there after the facts are replaced by the module constants
  (lines 91 to 94).  A name in an action template is looked up in the facts, which by then
  hold \<^verbatim>\<open>CAR_LENGTH\<close> and \<^verbatim>\<open>CAR_WIDTH\<close>.
\<close>

fun lookup :: "mode \<Rightarrow> (nkey \<times> real) list \<Rightarrow> nkey \<Rightarrow> py_error + real" where
  "lookup Condition nums k =
     (if garbled nums k then Inl Garbled
      else case map_of nums k of
             Some v \<Rightarrow> Inr v
           | None \<Rightarrow> (if k = CarLengthKey then Inr CAR_LENGTH
                      else if k = CarWidthKey then Inr CAR_WIDTH
                      else Inl NameError))"
| "lookup Action nums k =
     (case map_of nums k of Some v \<Rightarrow> Inr v | None \<Rightarrow> Inl NameError)"

fun lift1 :: "(real \<Rightarrow> 'a) \<Rightarrow> py_error + real \<Rightarrow> py_error + 'a" where
  "lift1 g (Inl e) = Inl e"
| "lift1 g (Inr x) = Inr (g x)"

fun lift2 :: "(real \<Rightarrow> real \<Rightarrow> 'a) \<Rightarrow> py_error + real \<Rightarrow> py_error + real \<Rightarrow> py_error + 'a" where
  "lift2 g (Inl e) r = Inl e"
| "lift2 g (Inr x) (Inl e) = Inl e"
| "lift2 g (Inr x) (Inr y) = Inr (g x y)"

text \<open>
  The value of an expression, or the exception it raises.  Conditions run with Python's
  builtins; action templates run with \<^verbatim>\<open>{"__builtins__": {}}\<close>, where \<^verbatim>\<open>abs\<close> is not
  defined.
\<close>

fun nval :: "mode \<Rightarrow> Facts \<Rightarrow> nexpr \<Rightarrow> py_error + real" where
  "nval m f (Num r) = Inr r"
| "nval m f (Var k) = lookup m (f_nums f) k"
| "nval m f (SpotAttr a) =
     (case f_selected_spot f of
        None \<Rightarrow> Inl NameError
      | Some None \<Rightarrow> Inl AttributeError
      | Some (Some s) \<Rightarrow> Inr (get_spot_attr a s))"
| "nval m f (ConfigAttr a) =
     (case f_config f of None \<Rightarrow> Inl NameError | Some c \<Rightarrow> Inr (get_config_attr a c))"
| "nval m f (Neg a) = lift1 uminus (nval m f a)"
| "nval m f (Add a b) = lift2 (+) (nval m f a) (nval m f b)"
| "nval m f (Sub a b) = lift2 (-) (nval m f a) (nval m f b)"
| "nval m f (Mul a b) = lift2 (*) (nval m f a) (nval m f b)"
| "nval m f (Abs a) = (case m of Action \<Rightarrow> Inl NameError | Condition \<Rightarrow> lift1 abs (nval m f a))"

fun holds :: "Facts \<Rightarrow> cond \<Rightarrow> py_error + bool" where
  "holds f (Lt a b) = lift2 (<) (nval Condition f a) (nval Condition f b)"
| "holds f (Le a b) = lift2 (\<le>) (nval Condition f a) (nval Condition f b)"
| "holds f (Gt a b) = lift2 (>) (nval Condition f a) (nval Condition f b)"
| "holds f (Ge a b) = lift2 (\<ge>) (nval Condition f a) (nval Condition f b)"
| "holds f (PhaseEq p) =
     (case f_phase f of None \<Rightarrow> Inl NameError | Some q \<Rightarrow> Inr (phase_value q = phase_value p))"
| "holds f (PhaseNe p) =
     (case f_phase f of None \<Rightarrow> Inl NameError | Some q \<Rightarrow> Inr (phase_value q \<noteq> phase_value p))"
| "holds f SpotIsNone =
     (case f_selected_spot f of None \<Rightarrow> Inl NameError | Some s \<Rightarrow> Inr (s = None))"
| "holds f SpotIsNotNone =
     (case f_selected_spot f of None \<Rightarrow> Inl NameError | Some s \<Rightarrow> Inr (s \<noteq> None))"
| "holds f (Or a b) =
     (case holds f a of
        Inl e \<Rightarrow> Inl e
      | Inr True \<Rightarrow> Inr True
      | Inr False \<Rightarrow> holds f b)"


section \<open>Rules\<close>

datatype act = AFloat real | ATempl string nexpr

text \<open>
  An action value is a float (\<open>AFloat\<close>) or a text (\<open>ATempl\<close>: the text and the expression
  it reads as).  The \<^verbatim>\<open>actions\<close> dict of a rule has the keys \<^verbatim>\<open>throttle\<close>, \<^verbatim>\<open>steering\<close>,
  \<^verbatim>\<open>reasoning\<close> and \<^verbatim>\<open>emergency\<close>.
\<close>

record Actions =
  act_throttle :: act
  act_steering :: act
  act_reasoning :: utext
  act_emergency :: bool

record Rule =
  name :: utext
  priority :: RulePriority
  conditions :: "cond list"
  actions :: Actions
  description :: utext

text \<open>
  \<^verbatim>\<open>Rule.evaluate\<close>: the conditions in order, stopping with \<^verbatim>\<open>False\<close> at the first one that
  is false; the \<^verbatim>\<open>except Exception\<close> around the loop turns every exception into \<^verbatim>\<open>False\<close>.
\<close>

fun all_hold :: "Facts \<Rightarrow> cond list \<Rightarrow> py_error + bool" where
  "all_hold f [] = Inr True"
| "all_hold f (c # cs) =
     (case holds f c of
        Inl e \<Rightarrow> Inl e
      | Inr False \<Rightarrow> Inr False
      | Inr True \<Rightarrow> all_hold f cs)"

definition evaluate :: "Rule \<Rightarrow> Facts \<Rightarrow> bool" where
  "evaluate r f = (case all_hold f (conditions r) of Inl e \<Rightarrow> False | Inr b \<Rightarrow> b)"


section \<open>The rule table\<close>

text \<open>Rule \<^verbatim>\<open>initial_start\<close>: name ``Start of motion'', reasoning ``Start of motion along the road'', description ``Initial motion when the system starts''
  (English renderings of the Russian texts, whose code points follow).\<close>

definition rule_initial_start :: Rule where
  "rule_initial_start = \<lparr>
     name = [1053, 1072, 1095, 1072, 1083, 1086, 32, 1076, 1074, 1080, 1078, 1077, 1085, 1080,
             1103],
     priority = HIGH,
     conditions = [
       PhaseEq SEARCHING,
       Lt (Var CarX) (Num 300)],
     actions = \<lparr>
       act_throttle = ATempl ''config.max_speed * 0.7'' (Mul (ConfigAttr MaxSpeed) (Num 0.7)),
       act_steering = AFloat 0,
       act_reasoning = [1053, 1072, 1095, 1072, 1083, 1086, 32, 1076, 1074, 1080, 1078, 1077, 1085, 1080,
                        1103, 32, 1087, 1086, 32, 1076, 1086, 1088, 1086, 1075, 1077],
       act_emergency = False\<rparr>,
     description = [1053, 1072, 1095, 1072, 1083, 1100, 1085, 1086, 1077, 32, 1076, 1074, 1080, 1078,
                    1077, 1085, 1080, 1077, 32, 1087, 1088, 1080, 32, 1089, 1090, 1072, 1088, 1090,
                    1077, 32, 1089, 1080, 1089, 1090, 1077, 1084, 1099]\<rparr>"

text \<open>Rule \<^verbatim>\<open>emergency_stop\<close>: name ``Emergency stop'', reasoning ``Emergency stop: obstacle ahead'', description ``Stop on a dangerous approach''
  (English renderings of the Russian texts, whose code points follow).\<close>

definition rule_emergency_stop :: Rule where
  "rule_emergency_stop = \<lparr>
     name = [1069, 1082, 1089, 1090, 1088, 1077, 1085, 1085, 1072, 1103, 32, 1086, 1089, 1090,
             1072, 1085, 1086, 1074, 1082, 1072],
     priority = HIGH,
     conditions = [
       Lt (Var FrontSensor) (Num 30),
       Gt (Var Throttle) (Num 0)],
     actions = \<lparr>
       act_throttle = AFloat 0,
       act_steering = AFloat 0,
       act_reasoning = [1069, 1082, 1089, 1090, 1088, 1077, 1085, 1085, 1072, 1103, 32, 1086, 1089, 1090,
                        1072, 1085, 1086, 1074, 1082, 1072, 58, 32, 1087, 1088, 1077, 1087, 1103, 1090,
                        1089, 1090, 1074, 1080, 1077, 32, 1074, 1087, 1077, 1088, 1077, 1076, 1080],
       act_emergency = True\<rparr>,
     description = [1054, 1089, 1090, 1072, 1085, 1086, 1074, 1082, 1072, 32, 1087, 1088, 1080, 32,
                    1086, 1087, 1072, 1089, 1085, 1086, 1084, 32, 1089, 1073, 1083, 1080, 1078, 1077,
                    1085, 1080, 1080]\<rparr>"

text \<open>Rule \<^verbatim>\<open>slow_down\<close>: name ``Slowing down'', reasoning ``Slowing down: obstacle ahead'', description ``Slowing down when nearing an obstacle''
  (English renderings of the Russian texts, whose code points follow).\<close>

definition rule_slow_down :: Rule where
  "rule_slow_down = \<lparr>
     name = [1047, 1072, 1084, 1077, 1076, 1083, 1077, 1085, 1080, 1077],
     priority = HIGH,
     conditions = [
       Lt (Var FrontSensor) (Num 100),
       Gt (Var Throttle) (Num 0)],
     actions = \<lparr>
       act_throttle = ATempl ''throttle * 0.5'' (Mul (Var Throttle) (Num 0.5)),
       act_steering = AFloat 0,
       act_reasoning = [1047, 1072, 1084, 1077, 1076, 1083, 1077, 1085, 1080, 1077, 58, 32, 1087, 1088,
                        1077, 1087, 1103, 1090, 1089, 1090, 1074, 1080, 1077, 32, 1074, 1087, 1077, 1088,
                        1077, 1076, 1080],
       act_emergency = False\<rparr>,
     description = [1047, 1072, 1084, 1077, 1076, 1083, 1077, 1085, 1080, 1077, 32, 1087, 1088, 1080,
                    32, 1087, 1088, 1080, 1073, 1083, 1080, 1078, 1077, 1085, 1080, 1080, 32, 1082, 32,
                    1087, 1088, 1077, 1087, 1103, 1090, 1089, 1090, 1074, 1080, 1102]\<rparr>"

text \<open>Rule \<^verbatim>\<open>straight_search\<close>: name ``Straight search'', reasoning ``Searching for a free parking spot'', description ``Straight motion to search for a spot''
  (English renderings of the Russian texts, whose code points follow).\<close>

definition rule_straight_search :: Rule where
  "rule_straight_search = \<lparr>
     name = [1055, 1088, 1103, 1084, 1086, 1081, 32, 1087, 1086, 1080, 1089, 1082],
     priority = MEDIUM,
     conditions = [
       PhaseEq SEARCHING,
       SpotIsNone],
     actions = \<lparr>
       act_throttle = ATempl ''config.max_speed * 0.7'' (Mul (ConfigAttr MaxSpeed) (Num 0.7)),
       act_steering = AFloat 0,
       act_reasoning = [1055, 1086, 1080, 1089, 1082, 32, 1089, 1074, 1086, 1073, 1086, 1076, 1085, 1086,
                        1075, 1086, 32, 1087, 1072, 1088, 1082, 1086, 1074, 1086, 1095, 1085, 1086, 1075,
                        1086, 32, 1084, 1077, 1089, 1090, 1072],
       act_emergency = False\<rparr>,
     description = [1055, 1088, 1103, 1084, 1086, 1077, 32, 1076, 1074, 1080, 1078, 1077, 1085, 1080,
                    1077, 32, 1076, 1083, 1103, 32, 1087, 1086, 1080, 1089, 1082, 1072, 32, 1084, 1077,
                    1089, 1090, 1072]\<rparr>"

text \<open>Rule \<^verbatim>\<open>center_correction\<close>: name ``Centre correction'', reasoning ``Correction to drive along the centre'', description ``Correction of the position on the road''
  (English renderings of the Russian texts, whose code points follow).\<close>

definition rule_center_correction :: Rule where
  "rule_center_correction = \<lparr>
     name = [1050, 1086, 1088, 1088, 1077, 1082, 1094, 1080, 1103, 32, 1094, 1077, 1085, 1090,
             1088, 1072],
     priority = MEDIUM,
     conditions = [
       PhaseEq SEARCHING,
       Gt (Abs (Sub (Var LeftSensor) (Var RightSensor))) (Num 50)],
     actions = \<lparr>
       act_throttle = ATempl ''config.max_speed * 0.7'' (Mul (ConfigAttr MaxSpeed) (Num 0.7)),
       act_steering = ATempl ''(right_sensor - left_sensor) * 0.01'' (Mul (Sub (Var RightSensor) (Var LeftSensor)) (Num 0.01)),
       act_reasoning = [1050, 1086, 1088, 1088, 1077, 1082, 1094, 1080, 1103, 32, 1076, 1083, 1103, 32,
                        1076, 1074, 1080, 1078, 1077, 1085, 1080, 1103, 32, 1087, 1086, 32, 1094, 1077,
                        1085, 1090, 1088, 1091],
       act_emergency = False\<rparr>,
     description = [1050, 1086, 1088, 1088, 1077, 1082, 1094, 1080, 1103, 32, 1087, 1086, 1083, 1086,
                    1078, 1077, 1085, 1080, 1103, 32, 1085, 1072, 32, 1076, 1086, 1088, 1086, 1075,
                    1077]\<rparr>"

text \<open>Rule \<^verbatim>\<open>spot_found\<close>: name ``Spot found'', reasoning ``Spot found, motion continues'', description ``Motion towards the spot found''
  (English renderings of the Russian texts, whose code points follow).\<close>

definition rule_spot_found :: Rule where
  "rule_spot_found = \<lparr>
     name = [1052, 1077, 1089, 1090, 1086, 32, 1085, 1072, 1081, 1076, 1077, 1085, 1086],
     priority = MEDIUM,
     conditions = [
       PhaseEq SEARCHING,
       SpotIsNotNone,
       Lt (Var CarX) (Sub (SpotAttr SpotX) (Num 100))],
     actions = \<lparr>
       act_throttle = ATempl ''config.max_speed * 0.6'' (Mul (ConfigAttr MaxSpeed) (Num 0.6)),
       act_steering = AFloat 0,
       act_reasoning = [1053, 1072, 1081, 1076, 1077, 1085, 1086, 32, 1084, 1077, 1089, 1090, 1086, 44, 32,
                        1087, 1088, 1086, 1076, 1086, 1083, 1078, 1072, 1077, 1084, 32, 1076, 1074, 1080,
                        1078, 1077, 1085, 1080, 1077],
       act_emergency = False\<rparr>,
     description = [1044, 1074, 1080, 1078, 1077, 1085, 1080, 1077, 32, 1082, 32, 1085, 1072, 1081,
                    1076, 1077, 1085, 1085, 1086, 1084, 1091, 32, 1084, 1077, 1089, 1090, 1091]\<rparr>"

text \<open>Rule \<^verbatim>\<open>approach_spot\<close>: name ``Approach to the spot'', reasoning ``Approach to the position for parking'', description ``Approach to the position before parking''
  (English renderings of the Russian texts, whose code points follow).\<close>

definition rule_approach_spot :: Rule where
  "rule_approach_spot = \<lparr>
     name = [1055, 1086, 1076, 1098, 1077, 1079, 1076, 32, 1082, 32, 1084, 1077, 1089, 1090,
             1091],
     priority = MEDIUM,
     conditions = [
       PhaseEq APPROACH,
       SpotIsNotNone,
       Lt (Var CarX) (Add (SpotAttr SpotX) (Mul (Var CarLengthKey) (Num 1.5)))],
     actions = \<lparr>
       act_throttle = ATempl ''config.max_speed * 0.5'' (Mul (ConfigAttr MaxSpeed) (Num 0.5)),
       act_steering = ATempl ''-(car_y - (selected_spot.y - CAR_WIDTH * 1.5)) * 0.008'' (Mul (Neg (Sub (Var CarY) (Sub (SpotAttr SpotY) (Mul (Var CarWidthKey) (Num 1.5))))) (Num 0.008)),
       act_reasoning = [1055, 1086, 1076, 1098, 1077, 1079, 1076, 32, 1082, 32, 1087, 1086, 1079, 1080,
                        1094, 1080, 1080, 32, 1076, 1083, 1103, 32, 1087, 1072, 1088, 1082, 1086, 1074,
                        1082, 1080],
       act_emergency = False\<rparr>,
     description = [1055, 1086, 1076, 1098, 1077, 1079, 1076, 32, 1082, 32, 1087, 1086, 1079, 1080,
                    1094, 1080, 1080, 32, 1087, 1077, 1088, 1077, 1076, 32, 1087, 1072, 1088, 1082,
                    1086, 1074, 1082, 1086, 1081]\<rparr>"

text \<open>Rule \<^verbatim>\<open>stop_for_maneuver\<close>: name ``Stop for the manoeuvre'', reasoning ``Position reached, preparing to park'', description ``Stop at the position for parking''
  (English renderings of the Russian texts, whose code points follow).\<close>

definition rule_stop_for_maneuver :: Rule where
  "rule_stop_for_maneuver = \<lparr>
     name = [1054, 1089, 1090, 1072, 1085, 1086, 1074, 1082, 1072, 32, 1076, 1083, 1103, 32,
             1084, 1072, 1085, 1077, 1074, 1088, 1072],
     priority = MEDIUM,
     conditions = [
       PhaseEq APPROACH,
       SpotIsNotNone,
       Ge (Var CarX) (Sub (Add (SpotAttr SpotX) (Mul (Var CarLengthKey) (Num 1.5))) (Num 40)),
       Le (Var CarX) (Add (Add (SpotAttr SpotX) (Mul (Var CarLengthKey) (Num 1.5))) (Num 40))],
     actions = \<lparr>
       act_throttle = AFloat 0,
       act_steering = AFloat 0,
       act_reasoning = [1055, 1086, 1079, 1080, 1094, 1080, 1103, 32, 1076, 1086, 1089, 1090, 1080, 1075,
                        1085, 1091, 1090, 1072, 44, 32, 1087, 1086, 1076, 1075, 1086, 1090, 1086, 1074,
                        1082, 1072, 32, 1082, 32, 1087, 1072, 1088, 1082, 1086, 1074, 1082, 1077],
       act_emergency = False\<rparr>,
     description = [1054, 1089, 1090, 1072, 1085, 1086, 1074, 1082, 1072, 32, 1085, 1072, 32, 1087,
                    1086, 1079, 1080, 1094, 1080, 1080, 32, 1076, 1083, 1103, 32, 1087, 1072, 1088,
                    1082, 1086, 1074, 1082, 1080]\<rparr>"

text \<open>Rule \<^verbatim>\<open>align_parallel\<close>: name ``Alignment'', reasoning ``Alignment parallel to the parking'', description ``Alignment of the car''
  (English renderings of the Russian texts, whose code points follow).\<close>

definition rule_align_parallel :: Rule where
  "rule_align_parallel = \<lparr>
     name = [1042, 1099, 1088, 1072, 1074, 1085, 1080, 1074, 1072, 1085, 1080, 1077],
     priority = MEDIUM,
     conditions = [
       PhaseEq POSITIONING,
       SpotIsNotNone,
       Or (Gt (Abs (Var CarAngle)) (Num 2)) (Gt (Abs (Sub (Var CarY) (Sub (SpotAttr SpotY) (Mul (Var CarWidthKey) (Num 1.5))))) (Num 15))],
     actions = \<lparr>
       act_throttle = ATempl ''config.max_speed * 0.3'' (Mul (ConfigAttr MaxSpeed) (Num 0.3)),
       act_steering = ATempl ''-car_angle * 0.15 - (car_y - (selected_spot.y - CAR_WIDTH * 1.5)) * 0.01'' (Sub (Mul (Neg (Var CarAngle)) (Num 0.15)) (Mul (Sub (Var CarY) (Sub (SpotAttr SpotY) (Mul (Var CarWidthKey) (Num 1.5)))) (Num 0.01))),
       act_reasoning = [1042, 1099, 1088, 1072, 1074, 1085, 1080, 1074, 1072, 1085, 1080, 1077, 32, 1087,
                        1072, 1088, 1072, 1083, 1083, 1077, 1083, 1100, 1085, 1086, 32, 1087, 1072, 1088,
                        1082, 1086, 1074, 1082, 1077],
       act_emergency = False\<rparr>,
     description = [1042, 1099, 1088, 1072, 1074, 1085, 1080, 1074, 1072, 1085, 1080, 1077, 32, 1072,
                    1074, 1090, 1086, 1084, 1086, 1073, 1080, 1083, 1103]\<rparr>"

text \<open>Rule \<^verbatim>\<open>ready_for_reverse\<close>: name ``Ready for reverse'', reasoning ``Ready for the rear manoeuvre'', description ``The car is ready for the rear manoeuvre''
  (English renderings of the Russian texts, whose code points follow).\<close>

definition rule_ready_for_reverse :: Rule where
  "rule_ready_for_reverse = \<lparr>
     name = [1043, 1086, 1090, 1086, 1074, 1085, 1086, 1089, 1090, 1100, 32, 1082, 32, 1088,
             1077, 1074, 1077, 1088, 1089, 1091],
     priority = MEDIUM,
     conditions = [
       PhaseEq POSITIONING,
       SpotIsNotNone,
       Lt (Abs (Var CarAngle)) (Num 3),
       Lt (Abs (Sub (Var CarY) (Sub (SpotAttr SpotY) (Mul (Var CarWidthKey) (Num 1.5))))) (Num 15),
       Lt (Var FrontRightSensor) (Num 120)],
     actions = \<lparr>
       act_throttle = AFloat 0,
       act_steering = AFloat 0,
       act_reasoning = [1043, 1086, 1090, 1086, 1074, 1085, 1086, 1089, 1090, 1100, 32, 1082, 32, 1079,
                        1072, 1076, 1085, 1077, 1084, 1091, 32, 1084, 1072, 1085, 1077, 1074, 1088, 1091],
       act_emergency = False\<rparr>,
     description = [1040, 1074, 1090, 1086, 1084, 1086, 1073, 1080, 1083, 1100, 32, 1075, 1086, 1090,
                    1086, 1074, 32, 1082, 32, 1079, 1072, 1076, 1085, 1077, 1084, 1091, 32, 1084, 1072,
                    1085, 1077, 1074, 1088, 1091]\<rparr>"

text \<open>Rule \<^verbatim>\<open>start_reverse\<close>: name ``Start of the rear manoeuvre'', reasoning ``Rear manoeuvre with a turn'', description ``Start of the rear manoeuvre''
  (English renderings of the Russian texts, whose code points follow).\<close>

definition rule_start_reverse :: Rule where
  "rule_start_reverse = \<lparr>
     name = [1053, 1072, 1095, 1072, 1083, 1086, 32, 1079, 1072, 1076, 1085, 1077, 1075, 1086,
             32, 1084, 1072, 1085, 1077, 1074, 1088, 1072],
     priority = HIGH,
     conditions = [
       PhaseEq REVERSE_RIGHT,
       Gt (Var CarAngle) (Neg (Num 35))],
     actions = \<lparr>
       act_throttle = ATempl ''-config.max_reverse_speed * 0.3'' (Mul (Neg (ConfigAttr MaxReverseSpeed)) (Num 0.3)),
       act_steering = ATempl ''20'' (Num 20),
       act_reasoning = [1047, 1072, 1076, 1085, 1080, 1081, 32, 1084, 1072, 1085, 1077, 1074, 1088, 32,
                        1089, 32, 1087, 1086, 1074, 1086, 1088, 1086, 1090, 1086, 1084],
       act_emergency = False\<rparr>,
     description = [1053, 1072, 1095, 1072, 1083, 1086, 32, 1079, 1072, 1076, 1085, 1077, 1075, 1086,
                    32, 1084, 1072, 1085, 1077, 1074, 1088, 1072]\<rparr>"

text \<open>Rule \<^verbatim>\<open>transition_to_align\<close>: name ``Transition to alignment'', reasoning ``Transition to alignment'', description ``Transition to the alignment phase''
  (English renderings of the Russian texts, whose code points follow).\<close>

definition rule_transition_to_align :: Rule where
  "rule_transition_to_align = \<lparr>
     name = [1055, 1077, 1088, 1077, 1093, 1086, 1076, 32, 1082, 32, 1074, 1099, 1088, 1072,
             1074, 1085, 1080, 1074, 1072, 1085, 1080, 1102],
     priority = HIGH,
     conditions = [
       PhaseEq REVERSE_RIGHT,
       Le (Var CarAngle) (Neg (Num 30))],
     actions = \<lparr>
       act_throttle = ATempl ''-config.max_reverse_speed * 0.2'' (Mul (Neg (ConfigAttr MaxReverseSpeed)) (Num 0.2)),
       act_steering = ATempl ''0'' (Num 0),
       act_reasoning = [1055, 1077, 1088, 1077, 1093, 1086, 1076, 32, 1082, 32, 1074, 1099, 1088, 1072,
                        1074, 1085, 1080, 1074, 1072, 1085, 1080, 1102],
       act_emergency = False\<rparr>,
     description = [1055, 1077, 1088, 1077, 1093, 1086, 1076, 32, 1082, 32, 1092, 1072, 1079, 1077, 32,
                    1074, 1099, 1088, 1072, 1074, 1085, 1080, 1074, 1072, 1085, 1080, 1103]\<rparr>"

text \<open>Rule \<^verbatim>\<open>reverse_align\<close>: name ``Alignment in reverse'', reasoning ``Alignment in reverse'', description ``Alignment of the car''
  (English renderings of the Russian texts, whose code points follow).\<close>

definition rule_reverse_align :: Rule where
  "rule_reverse_align = \<lparr>
     name = [1042, 1099, 1088, 1072, 1074, 1085, 1080, 1074, 1072, 1085, 1080, 1077, 32, 1079,
             1072, 1076, 1085, 1080, 1084, 32, 1093, 1086, 1076, 1086, 1084],
     priority = MEDIUM,
     conditions = [
       PhaseEq REVERSE_LEFT,
       Gt (Abs (Var CarAngle)) (Num 3)],
     actions = \<lparr>
       act_throttle = ATempl ''-config.max_reverse_speed * 0.25'' (Mul (Neg (ConfigAttr MaxReverseSpeed)) (Num 0.25)),
       act_steering = ATempl ''-12 - car_angle * 0.1'' (Sub (Neg (Num 12)) (Mul (Var CarAngle) (Num 0.1))),
       act_reasoning = [1042, 1099, 1088, 1072, 1074, 1085, 1080, 1074, 1072, 1085, 1080, 1077, 32, 1079,
                        1072, 1076, 1085, 1080, 1084, 32, 1093, 1086, 1076, 1086, 1084],
       act_emergency = False\<rparr>,
     description = [1042, 1099, 1088, 1072, 1074, 1085, 1080, 1074, 1072, 1085, 1080, 1077, 32, 1072,
                    1074, 1090, 1086, 1084, 1086, 1073, 1080, 1083, 1103]\<rparr>"

text \<open>Rule \<^verbatim>\<open>default_stop\<close>: name ``Default stop'', reasoning ``Waiting for commands'', description ``Default rule''
  (English renderings of the Russian texts, whose code points follow).\<close>

definition rule_default_stop :: Rule where
  "rule_default_stop = \<lparr>
     name = [1054, 1089, 1090, 1072, 1085, 1086, 1074, 1082, 1072, 32, 1087, 1086, 32, 1091,
             1084, 1086, 1083, 1095, 1072, 1085, 1080, 1102],
     priority = LOW,
     conditions = [
       PhaseNe PARKED],
     actions = \<lparr>
       act_throttle = AFloat 0,
       act_steering = AFloat 0,
       act_reasoning = [1054, 1078, 1080, 1076, 1072, 1085, 1080, 1077, 32, 1082, 1086, 1084, 1072, 1085,
                        1076],
       act_emergency = False\<rparr>,
     description = [1055, 1088, 1072, 1074, 1080, 1083, 1086, 32, 1087, 1086, 32, 1091, 1084, 1086,
                    1083, 1095, 1072, 1085, 1080, 1102]\<rparr>"

text \<open>Rule \<^verbatim>\<open>parking_complete\<close>: name ``Parking complete'', reasoning ``Parking successfully completed!'', description ``Completion of parking''
  (English renderings of the Russian texts, whose code points follow).\<close>

definition rule_parking_complete :: Rule where
  "rule_parking_complete = \<lparr>
     name = [1055, 1072, 1088, 1082, 1086, 1074, 1082, 1072, 32, 1079, 1072, 1074, 1077, 1088,
             1096, 1077, 1085, 1072],
     priority = MEDIUM,
     conditions = [
       PhaseEq PARKED],
     actions = \<lparr>
       act_throttle = AFloat 0,
       act_steering = AFloat 0,
       act_reasoning = [1055, 1072, 1088, 1082, 1086, 1074, 1082, 1072, 32, 1091, 1089, 1087, 1077, 1096,
                        1085, 1086, 32, 1079, 1072, 1074, 1077, 1088, 1096, 1077, 1085, 1072, 33],
       act_emergency = False\<rparr>,
     description = [1047, 1072, 1074, 1077, 1088, 1096, 1077, 1085, 1080, 1077, 32, 1087, 1072, 1088,
                    1082, 1086, 1074, 1082, 1080]\<rparr>"

definition build_rules :: "(string \<times> Rule) list" where
  "build_rules = [
     (''initial_start'', rule_initial_start),
     (''emergency_stop'', rule_emergency_stop),
     (''slow_down'', rule_slow_down),
     (''straight_search'', rule_straight_search),
     (''center_correction'', rule_center_correction),
     (''spot_found'', rule_spot_found),
     (''approach_spot'', rule_approach_spot),
     (''stop_for_maneuver'', rule_stop_for_maneuver),
     (''align_parallel'', rule_align_parallel),
     (''ready_for_reverse'', rule_ready_for_reverse),
     (''start_reverse'', rule_start_reverse),
     (''transition_to_align'', rule_transition_to_align),
     (''reverse_align'', rule_reverse_align),
     (''default_stop'', rule_default_stop),
     (''parking_complete'', rule_parking_complete)]"


section \<open>Inference\<close>

datatype pyval = VNum real | VStr string

record Decision =
  throttle :: pyval
  steering :: pyval
  reasoning :: utext
  emergency :: bool
  rule_applied :: utext
  rule_description :: utext

record KnowledgeBase =
  config :: ParkingConfig
  rules :: "(string \<times> Rule) list"
  facts :: Facts

text \<open>\<^verbatim>\<open>KnowledgeBase.__init__\<close>.\<close>

definition new_knowledge_base :: "ParkingConfig \<Rightarrow> KnowledgeBase" where
  "new_knowledge_base cfg = \<lparr>config = cfg, rules = build_rules, facts = empty_facts\<rparr>"

text \<open>
  The first lines of \<^verbatim>\<open>infer\<close>: the configuration and the two constants are written into
  the facts, and \<^verbatim>\<open>throttle\<close>, \<^verbatim>\<open>steering\<close> and \<^verbatim>\<open>emergency\<close> get a default when absent.
\<close>

definition prepare_facts :: "ParkingConfig \<Rightarrow> Facts \<Rightarrow> Facts" where
  "prepare_facts cfg f =
     (let f1 = f\<lparr>f_config := Some cfg\<rparr>;
          f2 = set_num CarLengthKey CAR_LENGTH f1;
          f3 = set_num CarWidthKey CAR_WIDTH f2;
          f4 = set_default Throttle 0 f3;
          f5 = set_default Steering 0 f4
      in f5\<lparr>f_emergency := (case f_emergency f5 of None \<Rightarrow> Some False | Some e \<Rightarrow> Some e)\<rparr>)"

text \<open>
  \<^verbatim>\<open>sorted(self.rules.values(), key=lambda r: r.priority.value, reverse=True)\<close>: Python's
  sort is stable, also with \<^verbatim>\<open>reverse=True\<close>, and the values of a dict come in insertion
  order.  \<open>sort_key\<close> is a stable insertion sort; descending order is ascending order of the
  negated key.
\<close>

definition sorted_rules :: "(string \<times> Rule) list \<Rightarrow> Rule list" where
  "sorted_rules rs = sort_key (\<lambda>r. - priority_value (priority r)) (map snd rs)"

text \<open>
  The order of the specification, for comparison: the rules of priority HIGH in
  declaration order, then those of priority MEDIUM, then those of priority LOW.
\<close>

definition by_priority :: "Rule list \<Rightarrow> Rule list" where
  "by_priority rs =
     filter (\<lambda>r. priority r = HIGH) rs @ filter (\<lambda>r. priority r = MEDIUM) rs
       @ filter (\<lambda>r. priority r = LOW) rs"

definition has_operator :: "string \<Rightarrow> bool" where
  "has_operator v = list_ex (\<lambda>c. List.member v c) ''+-*/()''"

text \<open>
  One action value: a text with an operator character is run by \<^verbatim>\<open>eval\<close>; when that
  raises, the bare \<^verbatim>\<open>except\<close> keeps the text.  Any other value stays as it is.
\<close>

fun synthesize :: "Facts \<Rightarrow> act \<Rightarrow> pyval" where
  "synthesize f (AFloat r) = VNum r"
| "synthesize f (ATempl v e) =
     (if has_operator v
      then (case nval Action f e of Inr x \<Rightarrow> VNum x | Inl err \<Rightarrow> VStr v)
      else VStr v)"

definition apply_rule :: "Facts \<Rightarrow> Rule \<Rightarrow> Decision" where
  "apply_rule f r = \<lparr>
     throttle = synthesize f (act_throttle (actions r)),
     steering = synthesize f (act_steering (actions r)),
     reasoning = act_reasoning (actions r),
     emergency = act_emergency (actions r),
     rule_applied = name r,
     rule_description = description r\<rparr>"

text \<open>The decision when no rule matched: reasoning ``Waiting...'', description ``Rule not found''.\<close>

definition no_rule_decision :: Decision where
  "no_rule_decision = \<lparr>
     throttle = VNum 0,
     steering = VNum 0,
     reasoning = [1054, 1078, 1080, 1076, 1072, 1085, 1080, 1077, 46, 46, 46],
     emergency = False,
     rule_applied = [110, 111, 110, 101],
     rule_description = [1055, 1088, 1072, 1074, 1080, 1083, 1086, 32, 1085, 1077, 32, 1085, 1072,
                         1081, 1076, 1077, 1085, 1086]\<rparr>"

text \<open>
  \<^verbatim>\<open>KnowledgeBase.infer\<close>: the decision and the knowledge base with the facts as the rules
  saw them.  The loop over the sorted rules returns at the first rule that evaluates to
  true (\<open>find\<close>).
\<close>

definition infer :: "KnowledgeBase \<Rightarrow> Decision \<times> KnowledgeBase" where
  "infer kb =
     (let f = prepare_facts (config kb) (facts kb);
          kb' = kb\<lparr>facts := f\<rparr>
      in case find (\<lambda>r. evaluate r f) (sorted_rules (rules kb)) of
           Some r \<Rightarrow> (apply_rule f r, kb')
         | None \<Rightarrow> (no_rule_decision, kb'))"


section \<open>The expert system\<close>

text \<open>
  \<^verbatim>\<open>KnowledgeBase.update_facts(**facts)\<close>: the keyword arguments are themselves a set of
  facts.  Every key given overwrites the stored one; when \<^verbatim>\<open>car_x\<close> and a selected spot
  are given, the distance to the spot is derived, reading \<^verbatim>\<open>facts['car_y']\<close>.
\<close>

definition update_facts :: "Facts \<Rightarrow> Facts \<Rightarrow> py_error + Facts" where
  "update_facts kw f =
     (let g = \<lparr>f_phase = (case f_phase kw of None \<Rightarrow> f_phase f | Some p \<Rightarrow> Some p),
                f_selected_spot =
                  (case f_selected_spot kw of None \<Rightarrow> f_selected_spot f | Some s \<Rightarrow> Some s),
                f_nums = fold (\<lambda>(k, v). AList.update k v) (f_nums kw) (f_nums f),
                f_config = (case f_config kw of None \<Rightarrow> f_config f | Some c \<Rightarrow> Some c),
                f_emergency = (case f_emergency kw of None \<Rightarrow> f_emergency f | Some e \<Rightarrow> Some e)\<rparr>
      in case (fact kw CarX, f_selected_spot kw) of
           (Some cx, Some (Some s)) \<Rightarrow>
             (case fact kw CarY of
                None \<Rightarrow> Inl KeyError
              | Some cy \<Rightarrow>
                  Inr (set_num DistanceToSpot (sqrt ((cx - spot_x s)\<^sup>2 + (cy - spot_y s)\<^sup>2)) g))
         | _ \<Rightarrow> Inr g)"

record HistoryEntry =
  h_phase :: string
  h_decision :: Decision
  h_sensors :: "real list"
  h_position :: "real \<times> real"
  h_angle :: real
  h_rule_applied :: utext

record ExpertSystem =
  es_config :: ParkingConfig
  knowledge_base :: KnowledgeBase
  decision_history :: "HistoryEntry list"

text \<open>\<^verbatim>\<open>ExpertSystem.__init__\<close>.\<close>

definition new_expert_system :: "ParkingConfig \<Rightarrow> ExpertSystem" where
  "new_expert_system cfg =
     \<lparr>es_config = cfg, knowledge_base = new_knowledge_base cfg, decision_history = []\<rparr>"

text \<open>
  The facts that \<^verbatim>\<open>make_decision\<close> prepares, in the order of its dict literal.  Reading
  \<^verbatim>\<open>sensors[7]\<close> needs eight readings.
\<close>

definition decision_facts ::
  "ParkingPhase \<Rightarrow> real list \<Rightarrow> real \<times> real \<Rightarrow> real \<Rightarrow> ParkingSpot option \<Rightarrow> Facts" where
  "decision_facts ph sens car_pos car_angle target_spot =
     \<lparr>f_phase = Some ph,
      f_selected_spot = Some target_spot,
      f_nums = [(CarX, fst car_pos), (CarY, snd car_pos), (CarAngle, car_angle),
                (FrontLeftSensor, sens ! 2), (FrontSensor, sens ! 3),
                (FrontRightSensor, sens ! 4), (LeftSensor, sens ! 1), (RightSensor, sens ! 5),
                (RearLeftSensor, sens ! 0), (RearRightSensor, sens ! 6), (RearSensor, sens ! 7)],
      f_config = None,
      f_emergency = None\<rparr>"

definition make_decision ::
  "ExpertSystem \<Rightarrow> ParkingPhase \<Rightarrow> real list \<Rightarrow> real \<times> real \<Rightarrow> real \<Rightarrow> ParkingSpot option
     \<Rightarrow> py_error + (Decision \<times> ExpertSystem)" where
  "make_decision es ph sens car_pos car_angle target_spot =
     (if length sens < 8 then Inl IndexError
      else case update_facts (decision_facts ph sens car_pos car_angle target_spot)
                  (facts (knowledge_base es)) of
             Inl e \<Rightarrow> Inl e
           | Inr f \<Rightarrow>
               (let (decision, kb') = infer ((knowledge_base es)\<lparr>facts := f\<rparr>);
                    entry = \<lparr>h_phase = phase_value ph, h_decision = decision, h_sensors = sens,
                             h_position = car_pos, h_angle = car_angle,
                             h_rule_applied = rule_applied decision\<rparr>
                in Inr (decision,
                        es\<lparr>knowledge_base := kb',
                           decision_history := decision_history es @ [entry]\<rparr>)))"


section \<open>The vehicle\<close>

record Car =
  pos_x :: real
  pos_y :: real
  angle :: real
  speed :: real
  car_max_speed :: real
  car_steering :: real
  color :: "nat \<times> nat \<times> nat"
  turning_radius :: real
  sensors :: "real list"
  previous_speed :: real
  acceleration :: real
  deceleration :: real

text \<open>\<^verbatim>\<open>Car.__init__(x, y, angle, color)\<close>.\<close>

definition new_car :: "real \<Rightarrow> real \<Rightarrow> real \<Rightarrow> nat \<times> nat \<times> nat \<Rightarrow> Car" where
  "new_car x y a c =
     \<lparr>pos_x = x, pos_y = y, angle = a, speed = 0, car_max_speed = 2.5, car_steering = 0,
      color = c, turning_radius = CAR_LENGTH * 2.5, sensors = replicate 8 SENSOR_RANGE,
      previous_speed = 0, acceleration = 0.01, deceleration = 0.02\<rparr>"

definition radians :: "real \<Rightarrow> real" where
  "radians d = d * pi / 180"

definition degrees :: "real \<Rightarrow> real" where
  "degrees r = r * 180 / pi"

text \<open>
  The first part of \<^verbatim>\<open>Car.update\<close>: the speed that the car takes, from the commanded
  speed \<open>speed\<close> and the speed of the previous tick.
\<close>

definition limited_speed :: "real \<Rightarrow> Car \<Rightarrow> real" where
  "limited_speed dt car =
     (let speed_diff = speed car - previous_speed car
      in if speed_diff \<noteq> 0
         then (let is_accelerating = \<bar>speed car\<bar> > \<bar>previous_speed car\<bar>;
                   max_change = (if is_accelerating then acceleration car * dt * 60
                                 else deceleration car * dt * 60)
               in if \<bar>speed_diff\<bar> > max_change
                  then (if speed_diff > 0 then previous_speed car + max_change
                        else previous_speed car - max_change)
                  else speed car)
         else speed car)"

text \<open>
  \<^verbatim>\<open>Car.update(dt)\<close>.  The division by \<open>turning_circle\<close> raises when the turning radius
  is zero.
\<close>

definition update :: "real \<Rightarrow> Car \<Rightarrow> py_error + Car" where
  "update dt car =
     (let v = limited_speed dt car;
          car1 = car\<lparr>speed := v, previous_speed := v\<rparr>
      in if \<bar>car_steering car1\<bar> > 0.1 \<and> \<bar>speed car1\<bar> > 0.1 \<and> turning_radius car1 = 0
         then Inl ZeroDivisionError
         else
           (let car2 =
                  (if \<bar>car_steering car1\<bar> > 0.1 \<and> \<bar>speed car1\<bar> > 0.1
                   then (let turning_circle =
                               turning_radius car1 / max 0.1 (\<bar>car_steering car1\<bar> / 30);
                             angular_speed = speed car1 / turning_circle;
                             angular_speed' =
                               (if car_steering car1 < 0 then - angular_speed else angular_speed)
                         in car1\<lparr>angle := angle car1 + degrees angular_speed' * dt * 60\<rparr>)
                   else car1);
                dx = speed car2 * cos (radians (angle car2)) * dt * 100;
                dy = speed car2 * sin (radians (angle car2)) * dt * 100
            in Inr (car2\<lparr>pos_x := pos_x car2 + dx, pos_y := pos_y car2 + dy\<rparr>)))"

definition get_corners :: "Car \<Rightarrow> (real \<times> real) list" where
  "get_corners car =
     (let c = cos (radians (angle car)); s = sin (radians (angle car));
          points = [(- CAR_LENGTH / 2, - CAR_WIDTH / 2), (CAR_LENGTH / 2, - CAR_WIDTH / 2),
                    (CAR_LENGTH / 2, CAR_WIDTH / 2), (- CAR_LENGTH / 2, CAR_WIDTH / 2)]
      in map (\<lambda>(x, y). (pos_x car + x * c - y * s, pos_y car + x * s + y * c)) points)"

definition sensor_angles :: "real list" where
  "sensor_angles = [-135, -90, -45, -20, 20, 45, 90, 135]"

text \<open>
  The inner loops of \<^verbatim>\<open>Car.update_sensors\<close> for one ray: the reading starts at the sensor
  range and every corner with a positive projection onto the ray that is nearer than the
  reading replaces it.  \<^verbatim>\<open>math.hypot\<close> is the Euclidean norm.
\<close>

definition see_corner :: "Car \<Rightarrow> real \<Rightarrow> real \<times> real \<Rightarrow> real \<Rightarrow> real" where
  "see_corner car da corner reading =
     (let ang = radians (angle car + da);
          dx = cos ang; dy = sin ang;
          px = fst corner - pos_x car; py = snd corner - pos_y car;
          proj = px * dx + py * dy
      in if proj > 0
         then (let dist = sqrt (px\<^sup>2 + py\<^sup>2) in if dist < reading then dist else reading)
         else reading)"

definition ray_reading :: "Car \<Rightarrow> Car list \<Rightarrow> real \<Rightarrow> real" where
  "ray_reading car obstacles da =
     fold (see_corner car da) (concat (map get_corners obstacles)) SENSOR_RANGE"

definition update_sensors :: "Car \<Rightarrow> Car list \<Rightarrow> Car" where
  "update_sensors car obstacles = car\<lparr>sensors := map (ray_reading car obstacles) sensor_angles\<rparr>"

text \<open>
  For comparison with the specification: the Euclidean distance from the vehicle to a
  corner, the projection of the corner onto the ray at offset \<open>da\<close>, and the distances to the
  corners of the obstacles that have a positive projection onto that ray.
\<close>

definition corner_distance :: "Car \<Rightarrow> real \<times> real \<Rightarrow> real" where
  "corner_distance car corner = sqrt ((fst corner - pos_x car)\<^sup>2 + (snd corner - pos_y car)\<^sup>2)"

definition projection :: "Car \<Rightarrow> real \<Rightarrow> real \<times> real \<Rightarrow> real" where
  "projection car da corner =
     (fst corner - pos_x car) * cos (radians (angle car + da))
       + (snd corner - pos_y car) * sin (radians (angle car + da))"

definition hit_distances :: "Car \<Rightarrow> Car list \<Rightarrow> real \<Rightarrow> real list" where
  "hit_distances car obstacles da =
     map (corner_distance car)
       (filter (\<lambda>corner. projection car da corner > 0) (concat (map get_corners obstacles)))"


section \<open>The phase state machine\<close>

text \<open>
  The fields of \<^verbatim>\<open>ParkingSimulation\<close> that the control step reads and writes; the screen,
  the fonts, the list of parking spots and the statistics are left out.
\<close>

record ParkingSimulation =
  expert_system :: ExpertSystem
  player_car :: Car
  obstacle_cars :: "Car list"
  current_phase :: ParkingPhase
  selected_spot :: "ParkingSpot option"
  parked :: bool
  phase_timer :: real

text \<open>
  \<^verbatim>\<open>ParkingSimulation.handle_phase_transitions\<close>.  In the phase APPROACH the spot is read
  without a test, which raises when no spot is selected.
\<close>

definition handle_phase_transitions :: "ParkingSimulation \<Rightarrow> py_error + ParkingSimulation" where
  "handle_phase_transitions sim =
     (case current_phase sim of
        SEARCHING \<Rightarrow>
          (case selected_spot sim of
             Some spot \<Rightarrow>
               (if pos_x (player_car sim) > spot_x spot - 50
                then Inr (sim\<lparr>current_phase := APPROACH, phase_timer := 0\<rparr>)
                else Inr sim)
           | None \<Rightarrow> Inr sim)
      | APPROACH \<Rightarrow>
          (case selected_spot sim of
             None \<Rightarrow> Inl AttributeError
           | Some spot \<Rightarrow>
               (if pos_x (player_car sim) > spot_x spot + CAR_LENGTH * 1.2
                then Inr (sim\<lparr>current_phase := POSITIONING, phase_timer := 0\<rparr>)
                else Inr sim))
      | POSITIONING \<Rightarrow>
          (if phase_timer sim > 3.0
           then Inr (sim\<lparr>current_phase := PREPARE_REVERSE, phase_timer := 0\<rparr>)
           else Inr sim)
      | PREPARE_REVERSE \<Rightarrow>
          (if phase_timer sim > 0.5
           then Inr (sim\<lparr>current_phase := REVERSE_RIGHT, phase_timer := 0\<rparr>)
           else Inr sim)
      | REVERSE_RIGHT \<Rightarrow>
          (if angle (player_car sim) < - 25
           then Inr (sim\<lparr>current_phase := REVERSE_LEFT, phase_timer := 0\<rparr>)
           else Inr sim)
      | REVERSE_LEFT \<Rightarrow>
          (if \<bar>angle (player_car sim)\<bar> < 5 \<or> phase_timer sim > 4.0
           then Inr (sim\<lparr>current_phase := FINAL_ADJUST, phase_timer := 0\<rparr>)
           else Inr sim)
      | FINAL_ADJUST \<Rightarrow>
          (if phase_timer sim > 3.0
           then Inr (sim\<lparr>current_phase := PARKED, parked := True\<rparr>)
           else Inr sim)
      | PARKED \<Rightarrow> Inr sim
      | ABORTED \<Rightarrow> Inr sim)"

definition phases :: "ParkingPhase list" where
  "phases = [SEARCHING, APPROACH, POSITIONING, PREPARE_REVERSE, REVERSE_RIGHT, REVERSE_LEFT,
             FINAL_ADJUST, PARKED, ABORTED]"

fun phase_index :: "ParkingPhase \<Rightarrow> nat" where
  "phase_index SEARCHING = 0"
| "phase_index APPROACH = 1"
| "phase_index POSITIONING = 2"
| "phase_index PREPARE_REVERSE = 3"
| "phase_index REVERSE_RIGHT = 4"
| "phase_index REVERSE_LEFT = 5"
| "phase_index FINAL_ADJUST = 6"
| "phase_index PARKED = 7"
| "phase_index ABORTED = 8"

text \<open>
  \<^verbatim>\<open>ParkingSimulation.manual_phase_transition\<close>: \<open>phase_index\<close> is \<^verbatim>\<open>phases.index\<close>, and the
  next index is taken modulo \<^verbatim>\<open>len(phases) - 1\<close>, which is below the length of the list.
\<close>

definition manual_phase_transition :: "ParkingSimulation \<Rightarrow> ParkingSimulation" where
  "manual_phase_transition sim =
     (let current_index = phase_index (current_phase sim);
          next_index = (current_index + 1) mod (length phases - 1)
      in sim\<lparr>current_phase := phases ! next_index, phase_timer := 0\<rparr>)"


section \<open>Fact sets and inputs used below\<close>

text \<open>
  The default fact set of a phase: the phase, all eight sensors at the sensor range, no
  selected spot, throttle and steering zero.
\<close>

definition default_facts :: "ParkingPhase \<Rightarrow> Facts" where
  "default_facts ph =
     \<lparr>f_phase = Some ph,
      f_selected_spot = Some None,
      f_nums = [(FrontLeftSensor, SENSOR_RANGE), (FrontSensor, SENSOR_RANGE),
                (FrontRightSensor, SENSOR_RANGE), (LeftSensor, SENSOR_RANGE),
                (RightSensor, SENSOR_RANGE), (RearLeftSensor, SENSOR_RANGE),
                (RearRightSensor, SENSOR_RANGE), (RearSensor, SENSOR_RANGE),
                (Throttle, 0), (Steering, 0)],
      f_config = None,
      f_emergency = None\<rparr>"

text \<open>Reversing to the right at a heading of -10 degrees.\<close>

definition reversing_facts :: Facts where
  "reversing_facts =
     \<lparr>f_phase = Some REVERSE_RIGHT, f_selected_spot = Some None,
      f_nums = [(CarX, 700), (CarY, 500), (CarAngle, - 10)],
      f_config = None, f_emergency = None\<rparr>"

definition reversing_kb :: KnowledgeBase where
  "reversing_kb = \<lparr>config = simulation_config, rules = build_rules, facts = reversing_facts\<rparr>"

text \<open>
  The facts of the emergency stop scenario and nothing else: searching, an obstacle 20
  units ahead, throttle 1.
\<close>

definition scenario_facts :: Facts where
  "scenario_facts =
     \<lparr>f_phase = Some SEARCHING, f_selected_spot = None,
      f_nums = [(FrontSensor, 20), (Throttle, 1)],
      f_config = None, f_emergency = None\<rparr>"

text \<open>The same with no spot selected and the vehicle at \<open>x\<close> on the road.\<close>

definition obstacle_ahead_facts :: "real \<Rightarrow> Facts" where
  "obstacle_ahead_facts x =
     \<lparr>f_phase = Some SEARCHING, f_selected_spot = Some None,
      f_nums = [(CarX, x), (FrontSensor, 20), (Throttle, 1)],
      f_config = None, f_emergency = None\<rparr>"


text \<open>The first parking spot that \<^verbatim>\<open>_create_parking_spots\<close> makes.\<close>

definition first_spot :: ParkingSpot where
  "first_spot = \<lparr>spot_x = 400, spot_y = 550, spot_width = 100, spot_length = 120,
     occupied = False, suitable = True\<rparr>"

text \<open>Positioning at a heading of 5 degrees, with no fact \<^verbatim>\<open>car_y\<close>.\<close>

definition misaligned_facts :: Facts where
  "misaligned_facts =
     \<lparr>f_phase = Some POSITIONING, f_selected_spot = Some (Some first_spot),
      f_nums = [(CarX, 500), (CarAngle, 5)],
      f_config = None, f_emergency = None\<rparr>"

text \<open>
  Approaching the first spot, with throttle 1 and steering 3 from before and no fact
  \<^verbatim>\<open>car_y\<close>.
\<close>

definition approach_facts :: Facts where
  "approach_facts =
     \<lparr>f_phase = Some APPROACH, f_selected_spot = Some (Some first_spot),
      f_nums = [(CarX, 360), (Throttle, 1), (Steering, 3)],
      f_config = None, f_emergency = None\<rparr>"

definition approach_kb :: KnowledgeBase where
  "approach_kb = \<lparr>config = simulation_config, rules = build_rules, facts = approach_facts\<rparr>"


section \<open>References to absent facts\<close>

text \<open>
  A number-valued name is missing when the fact store has no such key; the two module
  constants are never missing in a condition.  An expression refers to something missing
  when a name in it is missing, when it reads an attribute of \<^verbatim>\<open>selected_spot\<close> and there
  is no such fact or the fact is \<^verbatim>\<open>None\<close>, or when it reads \<^verbatim>\<open>config\<close> and there is none.
\<close>

fun nexpr_missing :: "Facts \<Rightarrow> nexpr \<Rightarrow> bool" where
  "nexpr_missing f (Num r) = False"
| "nexpr_missing f (Var k) = (fact f k = None \<and> k \<noteq> CarLengthKey \<and> k \<noteq> CarWidthKey)"
| "nexpr_missing f (SpotAttr a) = (f_selected_spot f = None \<or> f_selected_spot f = Some None)"
| "nexpr_missing f (ConfigAttr a) = (f_config f = None)"
| "nexpr_missing f (Neg a) = nexpr_missing f a"
| "nexpr_missing f (Add a b) = (nexpr_missing f a \<or> nexpr_missing f b)"
| "nexpr_missing f (Sub a b) = (nexpr_missing f a \<or> nexpr_missing f b)"
| "nexpr_missing f (Mul a b) = (nexpr_missing f a \<or> nexpr_missing f b)"
| "nexpr_missing f (Abs a) = nexpr_missing f a"

text \<open>A condition mentions something missing, anywhere in its text.\<close>

fun mentions_missing :: "Facts \<Rightarrow> cond \<Rightarrow> bool" where
  "mentions_missing f (Lt a b) = (nexpr_missing f a \<or> nexpr_missing f b)"
| "mentions_missing f (Le a b) = (nexpr_missing f a \<or> nexpr_missing f b)"
| "mentions_missing f (Gt a b) = (nexpr_missing f a \<or> nexpr_missing f b)"
| "mentions_missing f (Ge a b) = (nexpr_missing f a \<or> nexpr_missing f b)"
| "mentions_missing f (PhaseEq p) = (f_phase f = None)"
| "mentions_missing f (PhaseNe p) = (f_phase f = None)"
| "mentions_missing f SpotIsNone = (f_selected_spot f = None)"
| "mentions_missing f SpotIsNotNone = (f_selected_spot f = None)"
| "mentions_missing f (Or a b) = (mentions_missing f a \<or> mentions_missing f b)"

text \<open>
  The evaluation of a condition reaches something missing: as before, but the right
  operand of \<^verbatim>\<open>or\<close> counts only when the left operand is false.
\<close>

fun reaches_missing :: "Facts \<Rightarrow> cond \<Rightarrow> bool" where
  "reaches_missing f (Lt a b) = (nexpr_missing f a \<or> nexpr_missing f b)"
| "reaches_missing f (Le a b) = (nexpr_missing f a \<or> nexpr_missing f b)"
| "reaches_missing f (Gt a b) = (nexpr_missing f a \<or> nexpr_missing f b)"
| "reaches_missing f (Ge a b) = (nexpr_missing f a \<or> nexpr_missing f b)"
| "reaches_missing f (PhaseEq p) = (f_phase f = None)"
| "reaches_missing f (PhaseNe p) = (f_phase f = None)"
| "reaches_missing f SpotIsNone = (f_selected_spot f = None)"
| "reaches_missing f SpotIsNotNone = (f_selected_spot f = None)"
| "reaches_missing f (Or a b) =
     (reaches_missing f a \<or> (holds f a = Inr False \<and> reaches_missing f b))"


text \<open>
  The first tick of the simulation: searching, the vehicle at its start position
  \<open>(200, 500)\<close> with heading 0, all sensors at the sensor range, no spot selected.
\<close>

definition clear_sensors :: "real list" where
  "clear_sensors = [400, 400, 400, 400, 400, 400, 400, 400]"

definition first_tick ::
  "ExpertSystem \<Rightarrow> py_error + (Decision \<times> ExpertSystem)" where
  "first_tick es = make_decision es SEARCHING clear_sensors (200, 500) 0 None"


text \<open>
  The state that \<^verbatim>\<open>ParkingSimulation.__init__\<close> sets up, for given obstacle cars (the
  source places them at random).
\<close>

definition new_simulation :: "Car list \<Rightarrow> ParkingSimulation" where
  "new_simulation obstacles =
     \<lparr>expert_system = new_expert_system simulation_config,
      player_car = (new_car 200 500 0 (0, 100, 255))
        \<lparr>turning_radius := CAR_LENGTH * turn_radius_ratio simulation_config\<rparr>,
      obstacle_cars = obstacles,
      current_phase = SEARCHING,
      selected_spot = None,
      parked = False,
      phase_timer = 0\<rparr>"

text \<open>The final adjustment, 3.1 seconds into the phase.\<close>

definition final_adjust_simulation :: ParkingSimulation where
  "final_adjust_simulation =
     (new_simulation [])\<lparr>current_phase := FINAL_ADJUST, selected_spot := Some first_spot,
        phase_timer := 3.1\<rparr>"

text \<open>A car at rest that is commanded to full speed.\<close>

definition starting_car :: Car where
  "starting_car = (new_car 200 500 0 (0, 100, 255))\<lparr>speed := 2.5\<rparr>"


text \<open>
  The vehicle at its start position, and an obstacle car parked in the last parking spot
  (\<open>x = 1150\<close>, \<open>y = 550\<close>).
\<close>

definition start_car :: Car where
  "start_car = new_car 200 500 0 (0, 100, 255)"

definition parked_obstacle :: Car where
  "parked_obstacle = new_car 1150 550 0 (200, 0, 0)"


section \<open>Rule order\<close>

lemma insort_key_append_less:
  "\<forall>y\<in>set xs. f y < f x \<Longrightarrow> insort_key f x (xs @ ys) = xs @ insort_key f x ys"
  by (induction xs) auto

text \<open>The stable descending sort is the concatenation of the three priority classes.\<close>

lemma sort_by_priority:
  "sort_key (\<lambda>r. - priority_value (priority r)) rs = by_priority rs"
proof (induction rs)
  case Nil
  show ?case by (simp add: by_priority_def)
next
  case (Cons x rs)
  let ?f = "\<lambda>r. - priority_value (priority r)"
  let ?H = "filter (\<lambda>r. priority r = HIGH) rs"
  let ?M = "filter (\<lambda>r. priority r = MEDIUM) rs"
  let ?L = "filter (\<lambda>r. priority r = LOW) rs"
  have step: "sort_key ?f (x # rs) = insort_key ?f x (?H @ ?M @ ?L)"
    using Cons.IH by (simp add: by_priority_def)
  show ?case
  proof (cases "priority x")
    case HIGH
    have "\<forall>y\<in>set (?H @ ?M @ ?L). ?f x \<le> ?f y"
      using HIGH by auto
    then have "insort_key ?f x (?H @ ?M @ ?L) = x # ?H @ ?M @ ?L"
      by (rule insort_is_Cons)
    then show ?thesis using step HIGH by (simp add: by_priority_def)
  next
    case MEDIUM
    have "\<forall>y\<in>set ?H. ?f y < ?f x" using MEDIUM by auto
    then have a: "insort_key ?f x (?H @ ?M @ ?L) = ?H @ insort_key ?f x (?M @ ?L)"
      by (rule insort_key_append_less)
    have "\<forall>y\<in>set (?M @ ?L). ?f x \<le> ?f y" using MEDIUM by auto
    then have "insort_key ?f x (?M @ ?L) = x # ?M @ ?L" by (rule insort_is_Cons)
    then show ?thesis using step a MEDIUM by (simp add: by_priority_def)
  next
    case LOW
    have "\<forall>y\<in>set (?H @ ?M). ?f y < ?f x" using LOW by auto
    then have a: "insort_key ?f x ((?H @ ?M) @ ?L) = (?H @ ?M) @ insort_key ?f x ?L"
      by (rule insort_key_append_less)
    have "\<forall>y\<in>set ?L. ?f x \<le> ?f y" using LOW by auto
    then have "insort_key ?f x ?L = x # ?L" by (rule insort_is_Cons)
    then show ?thesis using step a LOW by (simp add: by_priority_def)
  qed
qed

lemma sorted_rules_by_priority: "sorted_rules rs = by_priority (map snd rs)"
  by (simp add: sorted_rules_def sort_by_priority)

lemma set_sorted_rules: "set (sorted_rules rs) = snd ` set rs"
  by (simp add: sorted_rules_def)

lemma find_append:
  "find P (xs @ ys) = (case find P xs of Some x \<Rightarrow> Some x | None \<Rightarrow> find P ys)"
  by (induction xs) auto

lemma find_filter_high:
  "r \<in> set rs \<Longrightarrow> priority r = HIGH \<Longrightarrow> P r \<Longrightarrow>
   \<exists>r'. find P (filter (\<lambda>r. priority r = HIGH) rs) = Some r' \<and> priority r' = HIGH \<and> P r'
        \<and> r' \<in> set rs"
  by (induction rs) auto

lemmas rule_defs =
  rule_initial_start_def rule_emergency_stop_def rule_slow_down_def rule_straight_search_def
  rule_center_correction_def rule_spot_found_def rule_approach_spot_def
  rule_stop_for_maneuver_def rule_align_parallel_def rule_ready_for_reverse_def
  rule_start_reverse_def rule_transition_to_align_def rule_reverse_align_def
  rule_default_stop_def rule_parking_complete_def

lemma table_priorities:
  "map (\<lambda>p. priority (snd p)) build_rules =
     [HIGH, HIGH, HIGH, MEDIUM, MEDIUM, MEDIUM, MEDIUM, MEDIUM, MEDIUM, MEDIUM, HIGH, HIGH,
      MEDIUM, LOW, MEDIUM]"
  by (simp add: build_rules_def rule_defs)

text \<open>The order in which \<^verbatim>\<open>infer\<close> tries the fifteen rules of the table.\<close>

lemma sorted_table:
  "sorted_rules build_rules =
     [rule_initial_start, rule_emergency_stop, rule_slow_down, rule_start_reverse,
      rule_transition_to_align, rule_straight_search, rule_center_correction, rule_spot_found,
      rule_approach_spot, rule_stop_for_maneuver, rule_align_parallel, rule_ready_for_reverse,
      rule_reverse_align, rule_parking_complete, rule_default_stop]"
  using table_priorities
  by (simp add: sorted_rules_by_priority by_priority_def build_rules_def)


section \<open>Facts after the preparation in \<open>infer\<close>\<close>

lemma fact_set_num: "fact (set_num k v f) j = (if j = k then Some v else fact f j)"
  by (simp add: fact_def set_num_def update_conv')

lemma fact_set_default:
  "fact (set_default k v f) j = (if j = k \<and> fact f k = None then Some v else fact f j)"
  by (simp add: set_default_def fact_set_num)

lemma fact_other_fields [simp]:
  "fact (f\<lparr>f_emergency := e\<rparr>) = fact f" "fact (f\<lparr>f_config := c\<rparr>) = fact f"
  by (simp_all add: fact_def fun_eq_iff)

lemma fact_prepare:
  "fact (prepare_facts cfg f) k =
     (if k = CarLengthKey then Some CAR_LENGTH
      else if k = CarWidthKey then Some CAR_WIDTH
      else if k = Throttle \<and> fact f Throttle = None then Some 0
      else if k = Steering \<and> fact f Steering = None then Some 0
      else fact f k)"
  by (simp add: prepare_facts_def Let_def fact_set_default fact_set_num)

lemma phase_prepare [simp]: "f_phase (prepare_facts cfg f) = f_phase f"
  by (simp add: prepare_facts_def Let_def set_default_def set_num_def)

lemma spot_prepare [simp]: "f_selected_spot (prepare_facts cfg f) = f_selected_spot f"
  by (simp add: prepare_facts_def Let_def set_default_def set_num_def)

lemma config_prepare [simp]: "f_config (prepare_facts cfg f) = Some cfg"
  by (simp add: prepare_facts_def Let_def set_default_def set_num_def)

declare lookup.simps [simp del]

lemma lookup_action:
  "lookup Action (f_nums f) k = (case fact f k of Some v \<Rightarrow> Inr v | None \<Rightarrow> Inl NameError)"
  by (simp add: lookup.simps fact_def)

text \<open>A name that contains no other fact name is never garbled.\<close>

lemma lookup_plain:
  "inner_key k = None \<Longrightarrow>
   lookup Condition (f_nums f) k =
     (case fact f k of
        Some v \<Rightarrow> Inr v
      | None \<Rightarrow> (if k = CarLengthKey then Inr CAR_LENGTH
                 else if k = CarWidthKey then Inr CAR_WIDTH else Inl NameError))"
  by (simp add: lookup.simps garbled_def fact_def)

lemmas eval_simps = evaluate_def fact_prepare lookup_plain CAR_LENGTH_def CAR_WIDTH_def
  SENSOR_RANGE_def

lemma reversing_fact [simp]:
  "f_phase reversing_facts = Some REVERSE_RIGHT"
  "fact reversing_facts CarAngle = Some (- 10)"
  by (simp_all add: reversing_facts_def fact_def)

lemma reversing_kb_simps [simp]:
  "config reversing_kb = simulation_config" "rules reversing_kb = build_rules"
  "facts reversing_kb = reversing_facts"
  by (simp_all add: reversing_kb_def)

lemma empty_fact [simp]:
  "fact empty_facts k = None" "f_phase empty_facts = None" "f_selected_spot empty_facts = None"
  by (simp_all add: empty_facts_def fact_def)


section \<open>Rule selection\<close>

text \<open>
  Claim C1.  For every knowledge base (rule table, configuration and facts),
  \<^verbatim>\<open>KnowledgeBase.infer\<close> applies the first rule that evaluates to true in the order of the
  specification: priority HIGH before MEDIUM before LOW, and declaration order among rules of
  one priority; when no rule evaluates to true it returns the fallback decision.  In
  particular, when some rule of priority HIGH evaluates to true, the decision comes from a
  rule of priority HIGH that evaluates to true, wherever the MEDIUM and LOW rules stand in
  the table.
\<close>

theorem infer_selects_by_priority:
  "infer kb =
     (case find (\<lambda>r. evaluate r (prepare_facts (config kb) (facts kb)))
             (by_priority (map snd (rules kb))) of
        Some r \<Rightarrow> (apply_rule (prepare_facts (config kb) (facts kb)) r,
                   kb\<lparr>facts := prepare_facts (config kb) (facts kb)\<rparr>)
      | None \<Rightarrow> (no_rule_decision, kb\<lparr>facts := prepare_facts (config kb) (facts kb)\<rparr>))
   \<and> ((\<exists>r\<in>set (map snd (rules kb)).
          priority r = HIGH \<and> evaluate r (prepare_facts (config kb) (facts kb))) \<longrightarrow>
       (\<exists>r\<in>set (map snd (rules kb)).
          priority r = HIGH \<and> evaluate r (prepare_facts (config kb) (facts kb))
          \<and> fst (infer kb) = apply_rule (prepare_facts (config kb) (facts kb)) r))"
proof (intro conjI impI)
  let ?f = "prepare_facts (config kb) (facts kb)"
  show eq: "infer kb =
     (case find (\<lambda>r. evaluate r ?f) (by_priority (map snd (rules kb))) of
        Some r \<Rightarrow> (apply_rule ?f r, kb\<lparr>facts := ?f\<rparr>)
      | None \<Rightarrow> (no_rule_decision, kb\<lparr>facts := ?f\<rparr>))"
    by (simp add: infer_def Let_def sorted_rules_by_priority)
  assume "\<exists>r\<in>set (map snd (rules kb)). priority r = HIGH \<and> evaluate r ?f"
  then obtain r where r: "r \<in> set (map snd (rules kb))" "priority r = HIGH" "evaluate r ?f"
    by blast
  from find_filter_high [OF r(1) r(2), of "\<lambda>r. evaluate r ?f", OF r(3)]
  obtain r' where r':
    "find (\<lambda>r. evaluate r ?f) (filter (\<lambda>r. priority r = HIGH) (map snd (rules kb))) = Some r'"
    "priority r' = HIGH" "evaluate r' ?f" "r' \<in> set (map snd (rules kb))"
    by blast
  have "find (\<lambda>r. evaluate r ?f) (by_priority (map snd (rules kb))) = Some r'"
    using r'(1) by (simp add: by_priority_def find_append)
  then have "fst (infer kb) = apply_rule ?f r'"
    using eq by simp
  then show "\<exists>r\<in>set (map snd (rules kb)).
      priority r = HIGH \<and> evaluate r ?f \<and> fst (infer kb) = apply_rule ?f r"
    using r' by blast
qed

theorem infer_selects_by_priority_witness:
  "(\<exists>r\<in>set (map snd (rules reversing_kb)).
      priority r = HIGH
      \<and> evaluate r (prepare_facts (config reversing_kb) (facts reversing_kb)))
   \<and> (\<exists>r\<in>set (map snd (rules reversing_kb)).
        priority r = HIGH
        \<and> evaluate r (prepare_facts (config reversing_kb) (facts reversing_kb))
        \<and> fst (infer reversing_kb)
            = apply_rule (prepare_facts (config reversing_kb) (facts reversing_kb)) r)"
proof -
  have ev: "evaluate rule_start_reverse (prepare_facts simulation_config reversing_facts)"
    by (simp add: eval_simps rule_start_reverse_def)
  have pr: "priority rule_start_reverse = HIGH"
    by (simp add: rule_start_reverse_def)
  have h: "\<exists>r\<in>set (map snd (rules reversing_kb)). priority r = HIGH
      \<and> evaluate r (prepare_facts (config reversing_kb) (facts reversing_kb))"
  proof (rule bexI [of _ rule_start_reverse])
    show "priority rule_start_reverse = HIGH
      \<and> evaluate rule_start_reverse (prepare_facts (config reversing_kb) (facts reversing_kb))"
      using ev pr by simp
    show "rule_start_reverse \<in> set (map snd (rules reversing_kb))"
      by (simp add: build_rules_def)
  qed
  show ?thesis
    using h infer_selects_by_priority [of reversing_kb, THEN conjunct2, THEN mp, OF h]
    by (rule conjI)
qed


section \<open>No matching rule\<close>

lemma infer_none:
  "find (\<lambda>r. evaluate r (prepare_facts (config kb) (facts kb))) (sorted_rules (rules kb)) = None
   \<Longrightarrow> fst (infer kb) = no_rule_decision"
  by (simp add: infer_def Let_def)

lemma no_match_empty:
  "\<forall>r\<in>set (map snd build_rules). \<not> evaluate r (prepare_facts cfg empty_facts)"
  unfolding build_rules_def
  by (simp add: rule_defs evaluate_def lookup_plain fact_prepare)

text \<open>
  Claim C9.  When no rule of the table evaluates to true on the facts, \<^verbatim>\<open>infer\<close> returns a
  decision (the model of \<^verbatim>\<open>infer\<close> is a total function, there is no exception to raise):
  throttle 0, steering 0, the reasoning text ``Waiting...'' (in Russian in the source: the
  code points below), emergency false and the rule id \<^verbatim>\<open>none\<close>.
\<close>

theorem infer_no_match:
  assumes "\<forall>r\<in>set (map snd (rules kb)). \<not> evaluate r (prepare_facts (config kb) (facts kb))"
  shows "fst (infer kb) =
           \<lparr>throttle = VNum 0, steering = VNum 0,
            reasoning = [1054, 1078, 1080, 1076, 1072, 1085, 1080, 1077, 46, 46, 46],
            emergency = False,
            rule_applied = map of_char ''none'',
            rule_description = rule_description no_rule_decision\<rparr>"
proof -
  have "find (\<lambda>r. evaluate r (prepare_facts (config kb) (facts kb))) (sorted_rules (rules kb))
          = None"
    using assms by (simp add: find_None_iff set_sorted_rules)
  then have "fst (infer kb) = no_rule_decision" by (rule infer_none)
  then show ?thesis by (simp add: no_rule_decision_def)
qed

theorem infer_no_match_witness:
  "\<not> (\<exists>r\<in>set (map snd build_rules).
         evaluate r (prepare_facts simulation_config empty_facts))
   \<and> fst (infer (new_knowledge_base simulation_config)) =
       \<lparr>throttle = VNum 0, steering = VNum 0,
        reasoning = [1054, 1078, 1080, 1076, 1072, 1085, 1080, 1077, 46, 46, 46],
        emergency = False,
        rule_applied = map of_char ''none'',
        rule_description = rule_description no_rule_decision\<rparr>"
  using infer_no_match [of "new_knowledge_base simulation_config"]
    no_match_empty [of simulation_config]
  by (simp add: new_knowledge_base_def)


section \<open>Totality on the default fact sets\<close>

lemma default_fact [simp]:
  "f_phase (default_facts ph) = Some ph" "f_selected_spot (default_facts ph) = Some None"
  "fact (default_facts ph) CarX = None"
  by (simp_all add: default_facts_def fact_def)

text \<open>The default rule looks at the phase only, and so does the completion rule.\<close>

lemma evaluate_default_stop:
  "evaluate rule_default_stop f = (case f_phase f of None \<Rightarrow> False | Some q \<Rightarrow> q \<noteq> PARKED)"
  by (cases "f_phase f"; cases "the (f_phase f)"; simp add: rule_default_stop_def evaluate_def)

lemma evaluate_parking_complete:
  "evaluate rule_parking_complete f = (case f_phase f of None \<Rightarrow> False | Some q \<Rightarrow> q = PARKED)"
  by (cases "f_phase f"; cases "the (f_phase f)";
      simp add: rule_parking_complete_def evaluate_def)

lemma table_names:
  "r \<in> set (sorted_rules build_rules) \<Longrightarrow> name r \<noteq> map of_char ''none''"
  by (auto simp add: sorted_table rule_defs)

lemma infer_some:
  "find (\<lambda>r. evaluate r (prepare_facts (config kb) (facts kb))) (sorted_rules (rules kb)) = Some r
   \<Longrightarrow> fst (infer kb) = apply_rule (prepare_facts (config kb) (facts kb)) r"
  by (simp add: infer_def Let_def)

text \<open>
  Claim C2.  For each of the nine phases, on the default fact set of the phase (all eight
  sensors at the sensor range, no selected spot, throttle and steering zero) and for every
  configuration: the default rule evaluates to true exactly when the phase is not PARKED,
  the completion rule exactly when it is PARKED, so some rule of the table evaluates to
  true, the loop of \<^verbatim>\<open>infer\<close> finds a rule, and the decision is not the fallback one (its
  rule id is not \<^verbatim>\<open>none\<close>).
\<close>

theorem default_facts_total:
  "evaluate rule_default_stop (prepare_facts cfg (default_facts ph)) = (ph \<noteq> PARKED)
   \<and> evaluate rule_parking_complete (prepare_facts cfg (default_facts ph)) = (ph = PARKED)
   \<and> (\<exists>r\<in>set (map snd build_rules). evaluate r (prepare_facts cfg (default_facts ph)))
   \<and> find (\<lambda>r. evaluate r (prepare_facts cfg (default_facts ph))) (sorted_rules build_rules)
       \<noteq> None
   \<and> rule_applied (fst (infer \<lparr>config = cfg, rules = build_rules, facts = default_facts ph\<rparr>))
       \<noteq> map of_char ''none''"
proof -
  let ?f = "prepare_facts cfg (default_facts ph)"
  let ?kb = "\<lparr>config = cfg, rules = build_rules, facts = default_facts ph\<rparr>"
  have a: "evaluate rule_default_stop ?f = (ph \<noteq> PARKED)"
    by (simp add: evaluate_default_stop)
  have b: "evaluate rule_parking_complete ?f = (ph = PARKED)"
    by (simp add: evaluate_parking_complete)
  have mem: "rule_default_stop \<in> set (map snd build_rules)"
    "rule_parking_complete \<in> set (map snd build_rules)"
    by (simp_all add: build_rules_def)
  have c: "\<exists>r\<in>set (map snd build_rules). evaluate r ?f"
  proof (cases "ph = PARKED")
    case True
    then show ?thesis using b mem(2) by blast
  next
    case False
    then show ?thesis using a mem(1) by blast
  qed
  then have d: "find (\<lambda>r. evaluate r ?f) (sorted_rules build_rules) \<noteq> None"
    by (simp add: find_None_iff set_sorted_rules)
  then obtain r where r: "find (\<lambda>r. evaluate r ?f) (sorted_rules build_rules) = Some r"
    by blast
  then have "r \<in> set (sorted_rules build_rules)"
    by (auto simp add: find_Some_iff)
  then have "name r \<noteq> map of_char ''none''" by (rule table_names)
  moreover have "fst (infer ?kb) = apply_rule ?f r"
    using infer_some [of ?kb r] r by simp
  ultimately have e: "rule_applied (fst (infer ?kb)) \<noteq> map of_char ''none''"
    by (simp add: apply_rule_def)
  show ?thesis using a b c d e by blast
qed


section \<open>The emergency stop scenario\<close>

lemma scenario_fact [simp]:
  "f_phase scenario_facts = Some SEARCHING"
  "fact scenario_facts FrontSensor = Some 20"
  "fact scenario_facts Throttle = Some 1"
  "fact scenario_facts CarX = None"
  by (simp_all add: scenario_facts_def fact_def)

lemma obstacle_ahead_fact [simp]:
  "f_phase (obstacle_ahead_facts x) = Some SEARCHING"
  "fact (obstacle_ahead_facts x) FrontSensor = Some 20"
  "fact (obstacle_ahead_facts x) Throttle = Some 1"
  "fact (obstacle_ahead_facts x) CarX = Some x"
  by (simp_all add: obstacle_ahead_facts_def fact_def)

text \<open>
  Claim C10, as stated, fails: with phase \<^verbatim>\<open>searching\<close>, \<^verbatim>\<open>front_sensor = 20\<close> and
  \<^verbatim>\<open>throttle = 1\<close>, at the start position of the vehicle (\<^verbatim>\<open>car_x = 200\<close>) the rule
  \<^verbatim>\<open>initial_start\<close> also evaluates to true; it has priority HIGH as well and is declared
  before \<^verbatim>\<open>emergency_stop\<close>, so the decision is its own: throttle
  \<^verbatim>\<open>config.max_speed * 0.7 = 1.75\<close>, no emergency.
\<close>

theorem emergency_stop_shadowed:
  "f_phase (obstacle_ahead_facts 200) = Some SEARCHING
   \<and> fact (obstacle_ahead_facts 200) FrontSensor = Some 20
   \<and> fact (obstacle_ahead_facts 200) Throttle = Some 1
   \<and> fst (infer \<lparr>config = simulation_config, rules = build_rules,
                  facts = obstacle_ahead_facts 200\<rparr>) =
       \<lparr>throttle = VNum (7 / 4), steering = VNum 0,
        reasoning = act_reasoning (actions rule_initial_start),
        emergency = False,
        rule_applied = name rule_initial_start,
        rule_description = description rule_initial_start\<rparr>
   \<and> name rule_initial_start \<noteq> name rule_emergency_stop"
proof -
  let ?f = "prepare_facts simulation_config (obstacle_ahead_facts 200)"
  let ?kb = "\<lparr>config = simulation_config, rules = build_rules,
              facts = obstacle_ahead_facts 200\<rparr>"
  have y: "evaluate rule_initial_start ?f"
    by (simp add: rule_initial_start_def eval_simps)
  have "find (\<lambda>r. evaluate r ?f) (sorted_rules build_rules) = Some rule_initial_start"
    using y by (simp add: sorted_table)
  then have "fst (infer ?kb) = apply_rule ?f rule_initial_start"
    using infer_some [of ?kb rule_initial_start] by simp
  moreover have "synthesize ?f (act_throttle (actions rule_initial_start)) = VNum (7 / 4)"
    by (simp add: rule_initial_start_def has_operator_def simulation_config_def)
  moreover have "act_steering (actions rule_initial_start) = AFloat 0"
    "act_emergency (actions rule_initial_start) = False"
    by (simp_all add: rule_initial_start_def)
  moreover have "name rule_initial_start \<noteq> name rule_emergency_stop"
    by (simp add: rule_initial_start_def rule_emergency_stop_def)
  ultimately show ?thesis
    by (simp add: apply_rule_def)
qed

text \<open>
  Claim C10, amended.  For every configuration and every fact set with phase
  \<^verbatim>\<open>searching\<close>, \<^verbatim>\<open>front_sensor = 20\<close>, a throttle fact above zero, and no \<^verbatim>\<open>car_x\<close> below
  300 (absent, or at least 300, so that \<^verbatim>\<open>initial_start\<close> does not match), the decision is
  that of the rule stored
  under \<^verbatim>\<open>emergency_stop\<close>: throttle 0, steering 0, emergency true.
\<close>

theorem emergency_stop_scenario:
  assumes "f_phase f = Some SEARCHING" and "fact f FrontSensor = Some 20"
    and "fact f Throttle = Some t" and "0 < t"
    and "\<not> (\<exists>x. fact f CarX = Some x \<and> x < 300)"
  shows "fst (infer \<lparr>config = cfg, rules = build_rules, facts = f\<rparr>) =
           \<lparr>throttle = VNum 0, steering = VNum 0,
            reasoning = act_reasoning (actions rule_emergency_stop),
            emergency = True,
            rule_applied = name rule_emergency_stop,
            rule_description = description rule_emergency_stop\<rparr>"
proof -
  let ?f = "prepare_facts cfg f"
  let ?kb = "\<lparr>config = cfg, rules = build_rules, facts = f\<rparr>"
  have n: "\<not> evaluate rule_initial_start ?f"
    using assms(1,5) by (cases "fact f CarX") (simp_all add: rule_initial_start_def eval_simps)
  have y: "evaluate rule_emergency_stop ?f"
    using assms(2,3,4) by (simp add: rule_emergency_stop_def eval_simps)
  have "find (\<lambda>r. evaluate r ?f) (sorted_rules build_rules) = Some rule_emergency_stop"
    using n y by (simp add: sorted_table)
  then have "fst (infer ?kb) = apply_rule ?f rule_emergency_stop"
    using infer_some [of ?kb rule_emergency_stop] by simp
  then show ?thesis
    by (simp add: apply_rule_def) (simp add: rule_emergency_stop_def)
qed

theorem emergency_stop_scenario_witness:
  "fst (infer \<lparr>config = simulation_config, rules = build_rules, facts = scenario_facts\<rparr>) =
     \<lparr>throttle = VNum 0, steering = VNum 0,
      reasoning = act_reasoning (actions rule_emergency_stop),
      emergency = True,
      rule_applied = name rule_emergency_stop,
      rule_description = description rule_emergency_stop\<rparr>
   \<and> fst (infer \<lparr>config = simulation_config, rules = build_rules,
                  facts = obstacle_ahead_facts 350\<rparr>) =
     \<lparr>throttle = VNum 0, steering = VNum 0,
      reasoning = act_reasoning (actions rule_emergency_stop),
      emergency = True,
      rule_applied = name rule_emergency_stop,
      rule_description = description rule_emergency_stop\<rparr>"
  using emergency_stop_scenario [of scenario_facts 1 simulation_config]
    emergency_stop_scenario [of "obstacle_ahead_facts 350" 1 simulation_config]
  by simp


section \<open>Conditions that refer to absent facts\<close>

lemma isl_lift1: "isl a \<Longrightarrow> isl (lift1 g a)"
  by (cases a) simp_all

lemma isl_lift2: "isl a \<or> isl b \<Longrightarrow> isl (lift2 g a b)"
  by (cases a; cases b) simp_all

lemma lookup_missing:
  "fact f k = None \<Longrightarrow> k \<noteq> CarLengthKey \<Longrightarrow> k \<noteq> CarWidthKey \<Longrightarrow>
   isl (lookup Condition (f_nums f) k)"
  by (simp add: lookup.simps fact_def)

text \<open>Arithmetic has no short cut: a missing name anywhere in an expression raises.\<close>

lemma nexpr_missing_raises: "nexpr_missing f e \<Longrightarrow> isl (nval Condition f e)"
proof (induction e)
  case (Var k)
  then show ?case by (simp add: lookup_missing)
next
  case (SpotAttr a)
  then show ?case by auto
next
  case (Add a b)
  then show ?case by (auto intro: isl_lift2)
next
  case (Sub a b)
  then show ?case by (auto intro: isl_lift2)
next
  case (Mul a b)
  then show ?case by (auto intro: isl_lift2)
qed (auto intro: isl_lift1)

lemma reaches_missing_raises: "reaches_missing f c \<Longrightarrow> isl (holds f c)"
proof (induction c)
  case (Or a b)
  then show ?case by (auto split: sum.splits bool.splits)
qed (auto intro: isl_lift2 nexpr_missing_raises)

text \<open>A condition that raises is never passed: either an earlier one stops the loop, or it does.\<close>

lemma raising_condition:
  "c \<in> set cs \<Longrightarrow> isl (holds f c) \<Longrightarrow> all_hold f cs \<noteq> Inr True"
proof (induction cs)
  case Nil
  then show ?case by simp
next
  case (Cons d cs)
  then show ?case
    by (cases "holds f d") (auto split: bool.splits)
qed

lemma misaligned_fact [simp]:
  "f_phase misaligned_facts = Some POSITIONING"
  "f_selected_spot misaligned_facts = Some (Some first_spot)"
  "fact misaligned_facts CarY = None"
  "fact misaligned_facts CarAngle = Some 5"
  by (simp_all add: misaligned_facts_def fact_def)

text \<open>
  Claim C3, as stated, fails in its second half: the third condition of the rule
  \<^verbatim>\<open>align_parallel\<close>,
  \<^verbatim>\<open>abs(car_angle) > 2 or abs(car_y - (selected_spot.y - CAR_WIDTH * 1.5)) > 15\<close>, refers to
  \<^verbatim>\<open>car_y\<close>; on facts with phase \<^verbatim>\<open>positioning\<close>, a selected spot, \<^verbatim>\<open>car_angle = 5\<close> and no
  \<^verbatim>\<open>car_y\<close>, the left operand of \<^verbatim>\<open>or\<close> is true, Python does not run the right one, and
  the rule evaluates to true.
\<close>

theorem evaluate_skips_missing_fact:
  "Or (Gt (Abs (Var CarAngle)) (Num 2))
      (Gt (Abs (Sub (Var CarY) (Sub (SpotAttr SpotY) (Mul (Var CarWidthKey) (Num 1.5)))))
          (Num 15))
     \<in> set (conditions rule_align_parallel)
   \<and> fact misaligned_facts CarY = None
   \<and> mentions_missing misaligned_facts
       (Or (Gt (Abs (Var CarAngle)) (Num 2))
           (Gt (Abs (Sub (Var CarY) (Sub (SpotAttr SpotY) (Mul (Var CarWidthKey) (Num 1.5)))))
               (Num 15)))
   \<and> evaluate rule_align_parallel misaligned_facts = True"
  by (simp add: rule_align_parallel_def evaluate_def lookup_plain)

text \<open>
  Claim C3, amended.  For every rule and every fact set, \<^verbatim>\<open>Rule.evaluate\<close> returns a truth
  value and never raises (\<open>evaluate\<close> is a total function into \<open>bool\<close>): when the evaluation
  of the condition list raises, the result is \<^verbatim>\<open>False\<close>; and when the evaluation of a
  condition of the rule reaches a fact that is absent, or an attribute of an absent spot
  (that is, not only in the right operand of an \<^verbatim>\<open>or\<close> whose left operand holds), the rule
  evaluates to \<^verbatim>\<open>False\<close>.
\<close>

theorem evaluate_missing_fact:
  "(all_hold f (conditions r) = Inl e \<longrightarrow> evaluate r f = False)
   \<and> (c \<in> set (conditions r) \<and> reaches_missing f c \<longrightarrow> evaluate r f = False)"
proof (intro conjI impI)
  assume "all_hold f (conditions r) = Inl e"
  then show "evaluate r f = False" by (simp add: evaluate_def)
next
  assume "c \<in> set (conditions r) \<and> reaches_missing f c"
  then have "all_hold f (conditions r) \<noteq> Inr True"
    using raising_condition reaches_missing_raises by blast
  then show "evaluate r f = False"
    by (cases "all_hold f (conditions r)") (auto simp add: evaluate_def)
qed

theorem evaluate_missing_fact_witness:
  "all_hold (default_facts SEARCHING) (conditions rule_initial_start) = Inl NameError
   \<and> Lt (Var CarX) (Num 300) \<in> set (conditions rule_initial_start)
   \<and> reaches_missing (default_facts SEARCHING) (Lt (Var CarX) (Num 300))
   \<and> evaluate rule_initial_start (default_facts SEARCHING) = False"
proof -
  have a: "all_hold (default_facts SEARCHING) (conditions rule_initial_start) = Inl NameError"
    by (simp add: rule_initial_start_def lookup_plain)
  have b: "Lt (Var CarX) (Num 300) \<in> set (conditions rule_initial_start)"
    by (simp add: rule_initial_start_def)
  have c: "reaches_missing (default_facts SEARCHING) (Lt (Var CarX) (Num 300))"
    by simp
  from evaluate_missing_fact [of "default_facts SEARCHING" rule_initial_start NameError
      "Lt (Var CarX) (Num 300)"] a b c
  show ?thesis by blast
qed


section \<open>Action templates that fail\<close>

lemma synthesize_failed: "nval Action f e = Inl err \<Longrightarrow> synthesize f (ATempl v e) = VStr v"
  by simp

lemma approach_fact [simp]:
  "f_phase approach_facts = Some APPROACH"
  "f_selected_spot approach_facts = Some (Some first_spot)"
  "fact approach_facts CarX = Some 360"
  "fact approach_facts CarY = None"
  "fact approach_facts Throttle = Some 1"
  "fact approach_facts Steering = Some 3"
  "fact approach_facts FrontSensor = None"
  "fact approach_facts LeftSensor = None"
  "fact approach_facts RightSensor = None"
  by (simp_all add: approach_facts_def fact_def)

lemma approach_kb_simps [simp]:
  "config approach_kb = simulation_config" "rules approach_kb = build_rules"
  "facts approach_kb = approach_facts"
  by (simp_all add: approach_kb_def)

lemma approach_rules:
  "\<not> evaluate rule_initial_start (prepare_facts simulation_config approach_facts)"
  "\<not> evaluate rule_emergency_stop (prepare_facts simulation_config approach_facts)"
  "\<not> evaluate rule_slow_down (prepare_facts simulation_config approach_facts)"
  "\<not> evaluate rule_start_reverse (prepare_facts simulation_config approach_facts)"
  "\<not> evaluate rule_transition_to_align (prepare_facts simulation_config approach_facts)"
  "\<not> evaluate rule_straight_search (prepare_facts simulation_config approach_facts)"
  "\<not> evaluate rule_center_correction (prepare_facts simulation_config approach_facts)"
  "\<not> evaluate rule_spot_found (prepare_facts simulation_config approach_facts)"
  "evaluate rule_approach_spot (prepare_facts simulation_config approach_facts)"
  by (simp_all add: rule_defs eval_simps first_spot_def)

lemma approach_first_match:
  "find (\<lambda>r. evaluate r (prepare_facts simulation_config approach_facts))
     (sorted_rules build_rules) = Some rule_approach_spot"
  by (simp add: sorted_table approach_rules)

lemma approach_steering_fails:
  "nval Action (prepare_facts simulation_config approach_facts)
     (Mul (Neg (Sub (Var CarY) (Sub (SpotAttr SpotY) (Mul (Var CarWidthKey) (Num 1.5)))))
        (Num 0.008)) = Inl NameError"
  by (simp add: lookup_action fact_prepare)

text \<open>
  Claim C8, as stated, fails: approaching the first spot with the steering fact at 3 and no
  fact \<^verbatim>\<open>car_y\<close>, the first matching rule is \<^verbatim>\<open>approach_spot\<close>, its steering template
  raises a \<^verbatim>\<open>NameError\<close>, and the steering of the decision is neither 3 nor any other
  number: it is the text of the template, which \<^verbatim>\<open>infer\<close> leaves in place.
\<close>

theorem failed_template_not_previous_value:
  "fact (prepare_facts simulation_config approach_facts) Steering = Some 3
   \<and> find (\<lambda>r. evaluate r (prepare_facts simulation_config approach_facts))
       (sorted_rules build_rules) = Some rule_approach_spot
   \<and> nval Action (prepare_facts simulation_config approach_facts)
       (Mul (Neg (Sub (Var CarY) (Sub (SpotAttr SpotY) (Mul (Var CarWidthKey) (Num 1.5)))))
          (Num 0.008)) = Inl NameError
   \<and> steering (fst (infer approach_kb)) =
       VStr ''-(car_y - (selected_spot.y - CAR_WIDTH * 1.5)) * 0.008''
   \<and> steering (fst (infer approach_kb)) \<noteq> VNum 3"
proof -
  have m: "find (\<lambda>r. evaluate r (prepare_facts (config approach_kb) (facts approach_kb)))
      (sorted_rules (rules approach_kb)) = Some rule_approach_spot"
    using approach_first_match by simp
  have a: "act_steering (actions rule_approach_spot) =
      ATempl ''-(car_y - (selected_spot.y - CAR_WIDTH * 1.5)) * 0.008''
        (Mul (Neg (Sub (Var CarY) (Sub (SpotAttr SpotY) (Mul (Var CarWidthKey) (Num 1.5)))))
           (Num 0.008))"
    by (simp add: rule_approach_spot_def)
  have "steering (fst (infer approach_kb)) =
      synthesize (prepare_facts simulation_config approach_facts)
        (act_steering (actions rule_approach_spot))"
    using infer_some [OF m] by (simp add: apply_rule_def)
  then have s: "steering (fst (infer approach_kb)) =
       VStr ''-(car_y - (selected_spot.y - CAR_WIDTH * 1.5)) * 0.008''"
    using approach_steering_fails by (simp only: a synthesize_failed)
  have p: "fact (prepare_facts simulation_config approach_facts) Steering = Some 3"
    by (simp add: fact_prepare)
  show ?thesis
    using p approach_first_match approach_steering_fails s by simp
qed

text \<open>
  Claim C8, amended.  When the throttle or steering template of the first matching rule
  fails to evaluate against the facts, \<^verbatim>\<open>infer\<close> still returns its decision (it is a total
  function: nothing is raised), and the corresponding output is the text of the template,
  unevaluated.
\<close>

theorem failed_template_is_kept:
  assumes "find (\<lambda>r. evaluate r (prepare_facts (config kb) (facts kb)))
             (sorted_rules (rules kb)) = Some r"
  shows "(act_throttle (actions r) = ATempl v e
            \<and> nval Action (prepare_facts (config kb) (facts kb)) e = Inl err
          \<longrightarrow> throttle (fst (infer kb)) = VStr v)
       \<and> (act_steering (actions r) = ATempl v e
            \<and> nval Action (prepare_facts (config kb) (facts kb)) e = Inl err
          \<longrightarrow> steering (fst (infer kb)) = VStr v)"
  using infer_some [OF assms] by (auto simp add: apply_rule_def)

theorem failed_template_is_kept_witness:
  "steering (fst (infer approach_kb)) =
     VStr ''-(car_y - (selected_spot.y - CAR_WIDTH * 1.5)) * 0.008''"
proof -
  have s: "act_steering (actions rule_approach_spot) =
      ATempl ''-(car_y - (selected_spot.y - CAR_WIDTH * 1.5)) * 0.008''
        (Mul (Neg (Sub (Var CarY) (Sub (SpotAttr SpotY) (Mul (Var CarWidthKey) (Num 1.5)))))
           (Num 0.008))"
    by (simp add: rule_approach_spot_def)
  have m: "find (\<lambda>r. evaluate r (prepare_facts (config approach_kb) (facts approach_kb)))
      (sorted_rules (rules approach_kb)) = Some rule_approach_spot"
    using approach_first_match by simp
  have e: "nval Action (prepare_facts (config approach_kb) (facts approach_kb))
     (Mul (Neg (Sub (Var CarY) (Sub (SpotAttr SpotY) (Mul (Var CarWidthKey) (Num 1.5)))))
        (Num 0.008)) = Inl NameError"
    using approach_steering_fails by simp
  show ?thesis
    by (rule failed_template_is_kept [OF m, THEN conjunct2, THEN mp, OF conjI, OF s e])
qed


section \<open>The throttle fact across ticks\<close>

lemma map_of_fold_update:
  "map_of (fold (\<lambda>(k, v). AList.update k v) xs ys) = map_of ys ++ map_of (rev xs)"
proof (induction xs arbitrary: ys)
  case Nil
  show ?case by simp
next
  case (Cons x xs)
  obtain k v where x: "x = (k, v)" by (cases x)
  show ?case
    by (simp add: x Cons.IH update_conv' map_add_upd_left fun_eq_iff map_add_def
        split: option.splits)
qed

lemma update_facts_fact:
  assumes "update_facts kw f = Inr g" and "k \<noteq> DistanceToSpot"
  shows "fact g k = (case map_of (rev (f_nums kw)) k of Some v \<Rightarrow> Some v | None \<Rightarrow> fact f k)"
  using assms
  by (auto simp add: update_facts_def Let_def fact_def set_num_def update_conv'
      map_of_fold_update map_add_def split: option.splits)

lemma update_facts_phase:
  assumes "update_facts kw f = Inr g"
  shows "f_phase g = (case f_phase kw of None \<Rightarrow> f_phase f | Some p \<Rightarrow> Some p)"
  using assms
  by (auto simp add: update_facts_def Let_def set_num_def split: option.splits)

text \<open>\<^verbatim>\<open>make_decision\<close> passes no \<^verbatim>\<open>throttle\<close> among its facts.\<close>

lemma decision_facts_simps:
  "map_of (rev (f_nums (decision_facts ph sens pos ang spot))) Throttle = None"
  "map_of (rev (f_nums (decision_facts ph sens pos ang spot))) CarX = Some (fst pos)"
  "f_phase (decision_facts ph sens pos ang spot) = Some ph"
  by (simp_all add: decision_facts_def)

lemma snd_infer: "snd (infer kb) = kb\<lparr>facts := prepare_facts (config kb) (facts kb)\<rparr>"
  by (simp add: infer_def Let_def split: option.splits)

lemma infer_pair:
  "infer kb = (d, kb') \<Longrightarrow>
   d = fst (infer kb) \<and> kb' = kb\<lparr>facts := prepare_facts (config kb) (facts kb)\<rparr>"
  using snd_infer [of kb] by simp

lemma make_decision_result:
  assumes "make_decision es ph sens pos ang spot = Inr (d, es')"
  shows "\<exists>g. update_facts (decision_facts ph sens pos ang spot) (facts (knowledge_base es)) = Inr g
        \<and> d = fst (infer ((knowledge_base es)\<lparr>facts := g\<rparr>))
        \<and> facts (knowledge_base es') = prepare_facts (config (knowledge_base es)) g
        \<and> config (knowledge_base es') = config (knowledge_base es)
        \<and> rules (knowledge_base es') = rules (knowledge_base es)"
  using assms
  by (auto simp add: make_decision_def Let_def split: if_splits sum.splits prod.splits
      dest!: infer_pair)

text \<open>
  Whatever the decision, the throttle fact after a call of \<^verbatim>\<open>make_decision\<close> is the
  throttle fact from before the call, or 0 when there was none: no code writes the decision
  back into the facts.
\<close>

lemma throttle_fact_never_written:
  assumes "make_decision es ph sens pos ang spot = Inr (d, es')"
  shows "fact (facts (knowledge_base es')) Throttle =
           Some (case fact (facts (knowledge_base es)) Throttle of None \<Rightarrow> 0 | Some t \<Rightarrow> t)"
proof -
  from make_decision_result [OF assms] obtain g where
    g: "update_facts (decision_facts ph sens pos ang spot) (facts (knowledge_base es)) = Inr g"
    and f: "facts (knowledge_base es') = prepare_facts (config (knowledge_base es)) g"
    by blast
  have "fact g Throttle = fact (facts (knowledge_base es)) Throttle"
    using update_facts_fact [OF g, of Throttle] by (simp add: decision_facts_simps)
  then show ?thesis
    by (simp add: f fact_prepare split: option.splits)
qed

lemma make_decision_returns:
  "8 \<le> length sens \<Longrightarrow> \<exists>d es'. make_decision es ph sens pos ang None = Inr (d, es')"
  by (simp add: make_decision_def update_facts_def decision_facts_def Let_def fact_def
      split: prod.splits)

lemma new_expert_system_simps [simp]:
  "config (knowledge_base (new_expert_system cfg)) = cfg"
  "rules (knowledge_base (new_expert_system cfg)) = build_rules"
  "facts (knowledge_base (new_expert_system cfg)) = empty_facts"
  by (simp_all add: new_expert_system_def new_knowledge_base_def)

lemma first_tick_decision:
  assumes "first_tick es = Inr (d, es')"
    and "config (knowledge_base es) = simulation_config"
    and "rules (knowledge_base es) = build_rules"
  shows "throttle d = VNum (7 / 4)"
proof -
  from make_decision_result [OF assms(1) [unfolded first_tick_def]] obtain g where
    g: "update_facts (decision_facts SEARCHING clear_sensors (200, 500) 0 None)
          (facts (knowledge_base es)) = Inr g"
    and d: "d = fst (infer ((knowledge_base es)\<lparr>facts := g\<rparr>))"
    by blast
  let ?f = "prepare_facts simulation_config g"
  have ph: "f_phase g = Some SEARCHING"
    using update_facts_phase [OF g] by (simp add: decision_facts_simps)
  have cx: "fact g CarX = Some 200"
    using update_facts_fact [OF g, of CarX] by (simp add: decision_facts_simps)
  have "evaluate rule_initial_start ?f"
    using ph cx by (simp add: rule_initial_start_def eval_simps)
  then have "find (\<lambda>r. evaluate r ?f) (sorted_rules build_rules) = Some rule_initial_start"
    by (simp add: sorted_table)
  then have "d = apply_rule ?f rule_initial_start"
    using infer_some [of "(knowledge_base es)\<lparr>facts := g\<rparr>" rule_initial_start] d assms(2,3)
    by simp
  then show ?thesis
    by (simp add: apply_rule_def rule_initial_start_def has_operator_def simulation_config_def)
qed

text \<open>
  Claim C4 does not hold of the code.  Two ticks from a fresh expert system, the vehicle
  searching at its start position: the first decision has throttle
  \<^verbatim>\<open>config.max_speed * 0.7 = 1.75\<close> (rule \<^verbatim>\<open>initial_start\<close>), and so has the second; yet the
  facts that the rules see at the second tick, and keep afterwards, hold \<^verbatim>\<open>throttle = 0\<close>,
  the default that \<^verbatim>\<open>infer\<close> wrote at the first tick.
\<close>

theorem throttle_fact_stays_zero:
  "\<exists>d1 es1 d2 es2.
     first_tick (new_expert_system simulation_config) = Inr (d1, es1)
     \<and> throttle d1 = VNum (7 / 4)
     \<and> first_tick es1 = Inr (d2, es2)
     \<and> throttle d2 = VNum (7 / 4)
     \<and> fact (facts (knowledge_base es2)) Throttle = Some 0"
proof -
  let ?es0 = "new_expert_system simulation_config"
  have len: "8 \<le> length clear_sensors" by (simp add: clear_sensors_def)
  from make_decision_returns [OF len] obtain d1 es1 where
    t1: "first_tick ?es0 = Inr (d1, es1)"
    unfolding first_tick_def by blast
  from make_decision_returns [OF len] obtain d2 es2 where
    t2: "first_tick es1 = Inr (d2, es2)"
    unfolding first_tick_def by blast
  have d1: "throttle d1 = VNum (7 / 4)"
    using first_tick_decision [OF t1] by simp
  from make_decision_result [OF t1 [unfolded first_tick_def]]
  have kb1: "config (knowledge_base es1) = simulation_config"
    "rules (knowledge_base es1) = build_rules"
    by auto
  have d2: "throttle d2 = VNum (7 / 4)"
    using first_tick_decision [OF t2 kb1] .
  have "fact (facts (knowledge_base es1)) Throttle = Some 0"
    using throttle_fact_never_written [OF t1 [unfolded first_tick_def]] by simp
  then have "fact (facts (knowledge_base es2)) Throttle = Some 0"
    using throttle_fact_never_written [OF t2 [unfolded first_tick_def]] by simp
  then show ?thesis using t1 t2 d1 d2 by blast
qed


section \<open>Phase transitions\<close>

lemma automatic_transition_resets_timer:
  assumes "handle_phase_transitions sim = Inr sim'"
    and "current_phase sim' \<noteq> current_phase sim"
    and "current_phase sim \<noteq> FINAL_ADJUST"
  shows "phase_timer sim' = 0"
  using assms
  by (cases "current_phase sim")
     (auto simp add: handle_phase_transitions_def split: option.splits if_splits)

lemma manual_transition_resets_timer: "phase_timer (manual_phase_transition sim) = 0"
  by (simp add: manual_phase_transition_def Let_def)

text \<open>
  The phase after \<^verbatim>\<open>handle_phase_transitions\<close>, when it returns: the table of the
  specification.  (In the phase APPROACH with no spot selected it raises.)
\<close>

lemma automatic_transitions:
  "handle_phase_transitions sim = Inr sim' \<Longrightarrow>
   current_phase sim' =
     (case current_phase sim of
        SEARCHING \<Rightarrow>
          (case selected_spot sim of
             None \<Rightarrow> SEARCHING
           | Some spot \<Rightarrow>
               if pos_x (player_car sim) > spot_x spot - 50 then APPROACH else SEARCHING)
      | APPROACH \<Rightarrow>
          (case selected_spot sim of
             None \<Rightarrow> APPROACH
           | Some spot \<Rightarrow>
               if pos_x (player_car sim) > spot_x spot + 1.2 * CAR_LENGTH then POSITIONING
               else APPROACH)
      | POSITIONING \<Rightarrow> if phase_timer sim > 3 then PREPARE_REVERSE else POSITIONING
      | PREPARE_REVERSE \<Rightarrow> if phase_timer sim > 0.5 then REVERSE_RIGHT else PREPARE_REVERSE
      | REVERSE_RIGHT \<Rightarrow> if angle (player_car sim) < - 25 then REVERSE_LEFT else REVERSE_RIGHT
      | REVERSE_LEFT \<Rightarrow>
          if \<bar>angle (player_car sim)\<bar> < 5 \<or> phase_timer sim > 4 then FINAL_ADJUST
          else REVERSE_LEFT
      | FINAL_ADJUST \<Rightarrow> if phase_timer sim > 3 then PARKED else FINAL_ADJUST
      | PARKED \<Rightarrow> PARKED
      | ABORTED \<Rightarrow> ABORTED)"
  by (cases "current_phase sim")
     (auto simp add: handle_phase_transitions_def split: option.splits if_splits)

text \<open>
  Claim C5 does not hold of the code in its last part.  The automatic transitions are the
  documented ones (\<open>automatic_transitions\<close>), and every transition but one sets the phase
  timer to zero (\<open>automatic_transition_resets_timer\<close>, \<open>manual_transition_resets_timer\<close>).
  The transition from FINAL_ADJUST to PARKED does not: 3.1 seconds into the final
  adjustment the phase becomes PARKED and the timer still reads 3.1.
\<close>

theorem final_transition_keeps_timer:
  "handle_phase_transitions final_adjust_simulation =
     Inr (final_adjust_simulation\<lparr>current_phase := PARKED, parked := True\<rparr>)
   \<and> current_phase final_adjust_simulation = FINAL_ADJUST
   \<and> phase_timer final_adjust_simulation = 3.1
   \<and> phase_timer (final_adjust_simulation\<lparr>current_phase := PARKED, parked := True\<rparr>) = 3.1"
  by (simp add: handle_phase_transitions_def final_adjust_simulation_def)


section \<open>Rate-limited speed\<close>

lemma limit_step:
  fixes s p m :: real
  assumes "0 \<le> m"
  shows "\<bar>(if \<bar>s - p\<bar> > m then (if s - p > 0 then p + m else p - m) else s) - p\<bar> \<le> m"
    and "\<bar>(if \<bar>s - p\<bar> > m then (if s - p > 0 then p + m else p - m) else s)\<bar> \<le> max \<bar>s\<bar> \<bar>p\<bar>"
  using assms by (auto simp add: abs_if max_def split: if_splits)

lemma limited_speed_bound:
  assumes "0 \<le> dt" and "0 \<le> acceleration car" and "0 \<le> deceleration car"
  shows "\<bar>limited_speed dt car - previous_speed car\<bar>
           \<le> (if \<bar>speed car\<bar> > \<bar>previous_speed car\<bar> then acceleration car * dt * 60
               else deceleration car * dt * 60)"
    and "\<bar>limited_speed dt car\<bar> \<le> max \<bar>speed car\<bar> \<bar>previous_speed car\<bar>"
proof -
  define m where "m = (if \<bar>speed car\<bar> > \<bar>previous_speed car\<bar> then acceleration car * dt * 60
      else deceleration car * dt * 60)"
  have m: "0 \<le> m" using assms by (simp add: m_def)
  have "limited_speed dt car =
      (if speed car - previous_speed car \<noteq> 0
       then (if \<bar>speed car - previous_speed car\<bar> > m
             then (if speed car - previous_speed car > 0 then previous_speed car + m
                   else previous_speed car - m)
             else speed car)
       else speed car)"
    by (simp only: limited_speed_def Let_def m_def)
  then have eq: "limited_speed dt car =
      (if \<bar>speed car - previous_speed car\<bar> > m
       then (if speed car - previous_speed car > 0 then previous_speed car + m
             else previous_speed car - m)
       else speed car)"
    using m by auto
  show "\<bar>limited_speed dt car - previous_speed car\<bar>
           \<le> (if \<bar>speed car\<bar> > \<bar>previous_speed car\<bar> then acceleration car * dt * 60
               else deceleration car * dt * 60)"
    unfolding eq using limit_step(1) [OF m] by (simp only: m_def [symmetric])
  show "\<bar>limited_speed dt car\<bar> \<le> max \<bar>speed car\<bar> \<bar>previous_speed car\<bar>"
    unfolding eq using limit_step(2) [OF m] .
qed

lemma update_speed:
  "update dt car = Inr car' \<Longrightarrow>
   speed car' = limited_speed dt car \<and> previous_speed car' = limited_speed dt car"
  by (auto simp add: update_def Let_def split: if_splits)

lemma update_returns:
  "turning_radius car \<noteq> 0 \<Longrightarrow> \<exists>car'. update dt car = Inr car'"
  by (simp add: update_def Let_def)

text \<open>
  Claim C7.  For every elapsed time \<open>dt \<ge> 0\<close> (it is \<^verbatim>\<open>clock.tick(FPS) / 1000.0\<close>) and every
  car with rates that are not negative (\<^verbatim>\<open>__init__\<close> sets 0.01 and 0.02, nothing changes
  them) and a turning radius that is not zero, for any commanded speed: \<^verbatim>\<open>Car.update(dt)\<close>
  returns, and the speed after the call differs from the speed of the previous tick by at
  most \<open>acceleration * dt * 60\<close> when the commanded speed is larger in magnitude than the
  previous one, and by at most \<open>deceleration * dt * 60\<close> otherwise.  When the acceleration
  rate is not above the deceleration rate, the same bounds hold with the speed after the
  call in place of the commanded speed in the test for accelerating.
\<close>

theorem speed_change_is_rate_limited:
  assumes "0 \<le> dt" and "0 \<le> acceleration car" and "0 \<le> deceleration car"
    and "turning_radius car \<noteq> 0"
  shows "\<exists>car'. update dt car = Inr car'
           \<and> \<bar>speed car' - previous_speed car\<bar>
               \<le> (if \<bar>speed car\<bar> > \<bar>previous_speed car\<bar> then acceleration car * dt * 60
                   else deceleration car * dt * 60)
           \<and> (acceleration car \<le> deceleration car \<longrightarrow>
                \<bar>speed car' - previous_speed car\<bar>
                  \<le> (if \<bar>speed car'\<bar> > \<bar>previous_speed car\<bar> then acceleration car * dt * 60
                      else deceleration car * dt * 60))"
proof -
  from update_returns [OF assms(4)] obtain car' where u: "update dt car = Inr car'" by blast
  then have s: "speed car' = limited_speed dt car" using update_speed by blast
  have b: "\<bar>speed car' - previous_speed car\<bar>
      \<le> (if \<bar>speed car\<bar> > \<bar>previous_speed car\<bar> then acceleration car * dt * 60
          else deceleration car * dt * 60)"
    using limited_speed_bound(1) [OF assms(1,2,3)] s by simp
  have m: "\<bar>speed car'\<bar> \<le> max \<bar>speed car\<bar> \<bar>previous_speed car\<bar>"
    using limited_speed_bound(2) [OF assms(1,2,3)] s by simp
  have c: "acceleration car \<le> deceleration car \<longrightarrow>
      \<bar>speed car' - previous_speed car\<bar>
        \<le> (if \<bar>speed car'\<bar> > \<bar>previous_speed car\<bar> then acceleration car * dt * 60
            else deceleration car * dt * 60)"
  proof
    assume le: "acceleration car \<le> deceleration car"
    then have "acceleration car * dt * 60 \<le> deceleration car * dt * 60"
      using assms(1) by (simp add: mult_right_mono)
    then show "\<bar>speed car' - previous_speed car\<bar>
        \<le> (if \<bar>speed car'\<bar> > \<bar>previous_speed car\<bar> then acceleration car * dt * 60
            else deceleration car * dt * 60)"
      using b m by (auto split: if_splits)
  qed
  show ?thesis using u b c by blast
qed

theorem speed_change_is_rate_limited_witness:
  "\<exists>car'. update (1 / 60) starting_car = Inr car'
     \<and> speed car' = 0.01
     \<and> \<bar>speed car' - previous_speed starting_car\<bar> \<le> acceleration starting_car * (1 / 60) * 60
     \<and> acceleration starting_car \<le> deceleration starting_car
     \<and> \<bar>speed car'\<bar> > \<bar>previous_speed starting_car\<bar>"
proof -
  have h: "(0::real) \<le> 1 / 60" "0 \<le> acceleration starting_car" "0 \<le> deceleration starting_car"
    "turning_radius starting_car \<noteq> 0"
    by (simp_all add: starting_car_def new_car_def CAR_LENGTH_def)
  from speed_change_is_rate_limited [OF h] obtain car' where
    c: "update (1 / 60) starting_car = Inr car'"
    and b: "\<bar>speed car' - previous_speed starting_car\<bar>
        \<le> (if \<bar>speed starting_car\<bar> > \<bar>previous_speed starting_car\<bar>
            then acceleration starting_car * (1 / 60) * 60
            else deceleration starting_car * (1 / 60) * 60)"
    by blast
  have "speed car' = limited_speed (1 / 60) starting_car"
    using update_speed [OF c] by simp
  then have s: "speed car' = 0.01"
    by (simp add: limited_speed_def starting_car_def new_car_def Let_def)
  have "\<bar>speed starting_car\<bar> > \<bar>previous_speed starting_car\<bar>"
    by (simp add: starting_car_def new_car_def)
  then have d: "\<bar>speed car' - previous_speed starting_car\<bar>
      \<le> acceleration starting_car * (1 / 60) * 60"
    using b by simp
  have r: "acceleration starting_car \<le> deceleration starting_car"
    "\<bar>speed car'\<bar> > \<bar>previous_speed starting_car\<bar>"
    using s by (simp_all add: starting_car_def new_car_def)
  show ?thesis using c s d r by blast
qed


section \<open>Sensor readings\<close>

lemma see_corner_eq:
  "see_corner car da c r =
     (if projection car da c > 0 then min (corner_distance car c) r else r)"
  by (simp add: see_corner_def projection_def corner_distance_def Let_def min_def)

lemma Min_insert_min:
  fixes d r :: real
  assumes "finite S"
  shows "Min (insert (min d r) S) = Min (insert r (insert d S))"
proof (cases "S = {}")
  case True
  then show ?thesis by (simp add: min.commute)
next
  case False
  then show ?thesis using assms by (simp add: min.assoc min.commute min.left_commute)
qed

lemma fold_see_corner:
  "fold (see_corner car da) cs r =
     Min (insert r (set (map (corner_distance car)
                           (filter (\<lambda>c. projection car da c > 0) cs))))"
proof (induction cs arbitrary: r)
  case Nil
  show ?case by simp
next
  case (Cons c cs)
  let ?S = "set (map (corner_distance car) (filter (\<lambda>c. projection car da c > 0) cs))"
  have step: "fold (see_corner car da) (c # cs) r = Min (insert (see_corner car da c r) ?S)"
    using Cons.IH [of "see_corner car da c r"] by simp
  show ?case
  proof (cases "projection car da c > 0")
    case True
    then have "see_corner car da c r = min (corner_distance car c) r"
      by (simp add: see_corner_eq)
    then have "fold (see_corner car da) (c # cs) r
        = Min (insert r (insert (corner_distance car c) ?S))"
      using step by (simp add: Min_insert_min)
    then show ?thesis using True by simp
  next
    case False
    then have "see_corner car da c r = r"
      by (simp add: see_corner_eq)
    then show ?thesis using step False by simp
  qed
qed

lemma ray_reading_eq:
  "ray_reading car obstacles da = Min (insert SENSOR_RANGE (set (hit_distances car obstacles da)))"
  by (simp add: ray_reading_def hit_distances_def fold_see_corner)

lemma length_sensor_angles: "length sensor_angles = 8"
  by (simp add: sensor_angles_def)

lemma sensor_nth:
  "i < 8 \<Longrightarrow>
   sensors (update_sensors car obstacles) ! i = ray_reading car obstacles (sensor_angles ! i)"
  by (simp add: update_sensors_def length_sensor_angles)

lemma hit_distances_nonneg: "d \<in> set (hit_distances car obstacles da) \<Longrightarrow> 0 \<le> d"
  by (auto simp add: hit_distances_def corner_distance_def)

text \<open>
  Claim C6, amended.  After \<^verbatim>\<open>Car.update_sensors(obstacles)\<close> there are eight readings.
  Each of them lies between 0 and the sensor range; it is the sensor range when no obstacle
  corner has a positive projection onto its ray; in general it is the least of the sensor
  range and the Euclidean distances from the vehicle to the obstacle corners that have a
  positive projection onto the ray.
\<close>

theorem sensor_reading_is_clamped_minimum:
  assumes "i < 8"
  shows "length (sensors (update_sensors car obstacles)) = 8
       \<and> sensors (update_sensors car obstacles) ! i =
           Min (insert SENSOR_RANGE (set (hit_distances car obstacles (sensor_angles ! i))))
       \<and> 0 \<le> sensors (update_sensors car obstacles) ! i
       \<and> sensors (update_sensors car obstacles) ! i \<le> SENSOR_RANGE
       \<and> (hit_distances car obstacles (sensor_angles ! i) = [] \<longrightarrow>
            sensors (update_sensors car obstacles) ! i = SENSOR_RANGE)"
proof -
  let ?S = "insert SENSOR_RANGE (set (hit_distances car obstacles (sensor_angles ! i)))"
  have eq: "sensors (update_sensors car obstacles) ! i = Min ?S"
    using assms by (simp add: sensor_nth ray_reading_eq)
  have fin: "finite ?S" "?S \<noteq> {}" by simp_all
  have "\<forall>d\<in>?S. 0 \<le> d"
    using hit_distances_nonneg by (auto simp add: SENSOR_RANGE_def)
  then have lo: "0 \<le> Min ?S" using Min_ge_iff [OF fin] by blast
  have hi: "Min ?S \<le> SENSOR_RANGE" using fin(1) by (rule Min_le) simp
  have len: "length (sensors (update_sensors car obstacles)) = 8"
    by (simp add: update_sensors_def length_sensor_angles)
  show ?thesis using eq lo hi len by simp
qed


theorem sensor_reading_is_clamped_minimum_witness:
  "length (sensors (update_sensors start_car [])) = 8
   \<and> hit_distances start_car [] (sensor_angles ! 6) = []
   \<and> sensors (update_sensors start_car []) ! 6 = SENSOR_RANGE
   \<and> 0 \<le> sensors (update_sensors start_car []) ! 6"
proof -
  have i: "(6::nat) < 8" by simp
  have h: "hit_distances start_car [] (sensor_angles ! 6) = []"
    by (simp add: hit_distances_def)
  from sensor_reading_is_clamped_minimum [OF i, of start_car "[]"] h
  show ?thesis by simp
qed

lemma parked_obstacle_corners:
  "get_corners parked_obstacle = [(1110, 530), (1190, 530), (1190, 570), (1110, 570)]"
  by (simp add: get_corners_def parked_obstacle_def new_car_def radians_def CAR_LENGTH_def
      CAR_WIDTH_def Let_def)

lemma ray_six: "sensor_angles ! 6 = 90"
  by (simp add: sensor_angles_def)

lemma projection_right:
  "projection start_car 90 c = snd c - 500"
  by (simp add: projection_def start_car_def new_car_def radians_def)

lemma start_car_position: "pos_x start_car = 200" "pos_y start_car = 500"
  by (simp_all add: start_car_def new_car_def)

lemma parked_obstacle_hits:
  "hit_distances start_car [parked_obstacle] (sensor_angles ! 6) =
     [sqrt 829000, sqrt 981000, sqrt 985000, sqrt 833000]"
  by (simp add: hit_distances_def parked_obstacle_corners ray_six projection_right
      corner_distance_def start_car_position)

lemma beyond_range:
  "400 < sqrt 829000" "400 < sqrt 981000" "400 < sqrt 985000" "400 < sqrt 833000"
  by (rule real_less_rsqrt, simp)+

text \<open>
  Claim C6, as stated, fails in its last part: with the vehicle at its start position and a
  car parked in the last spot, all four corners of that car have a positive projection onto
  the ray at offset 90 degrees (index 6); the nearest of them is \<open>sqrt 829000\<close> (about 910)
  away, beyond the sensor range, and the reading is the range, 400, not that distance.
\<close>

theorem distant_corner_reads_range:
  "hit_distances start_car [parked_obstacle] (sensor_angles ! 6) \<noteq> []
   \<and> sensors (update_sensors start_car [parked_obstacle]) ! 6 = 400
   \<and> Min (set (hit_distances start_car [parked_obstacle] (sensor_angles ! 6))) = sqrt 829000
   \<and> sensors (update_sensors start_car [parked_obstacle]) ! 6
       \<noteq> Min (set (hit_distances start_car [parked_obstacle] (sensor_angles ! 6)))"
proof -
  have lt: "sqrt 829000 < sqrt 981000" "sqrt 829000 < sqrt 985000" "sqrt 829000 < sqrt 833000"
    by simp_all
  have m: "Min (set (hit_distances start_car [parked_obstacle] (sensor_angles ! 6)))
      = sqrt 829000"
    using lt by (simp add: parked_obstacle_hits min_def)
  have i: "(6::nat) < 8" by simp
  have "sensors (update_sensors start_car [parked_obstacle]) ! 6 =
      Min (insert SENSOR_RANGE
             (set (hit_distances start_car [parked_obstacle] (sensor_angles ! 6))))"
    using sensor_nth [OF i] by (simp add: ray_reading_eq)
  then have r: "sensors (update_sensors start_car [parked_obstacle]) ! 6 = 400"
    using beyond_range lt
    by (simp add: parked_obstacle_hits SENSOR_RANGE_def min_def)
  show ?thesis
    using m r beyond_range(1) by (simp add: parked_obstacle_hits)
qed

end
